theory Spec2Isabelle
  imports Main "HOL-Library.Sublist" "HOL-Library.AList"
begin

section \<open>Strings of the Go runtime\<close>

text \<open>
  A Go string is a sequence of bytes; it is modelled as \<open>string\<close>. The library
  functions the modelled code calls are written out here for byte strings.
\<close>

text \<open>\<open>strings.Contains(s, sub)\<close>: \<open>sub\<close> occurs in \<open>s\<close> as a contiguous block.\<close>

fun Contains :: "string \<Rightarrow> string \<Rightarrow> bool" where
  "Contains [] sub = (sub = [])"
| "Contains (c # cs) sub = (prefix sub (c # cs) \<or> Contains cs sub)"

text \<open>Decimal digits of a natural number, most significant first.\<close>

definition digitChar :: "nat \<Rightarrow> char" where
  "digitChar d = ''0123456789'' ! d"

fun natToDec :: "nat \<Rightarrow> string" where
  "natToDec n = (if n < 10 then [digitChar n] else natToDec (n div 10) @ [digitChar (n mod 10)])"

declare natToDec.simps [simp del]

text \<open>\<open>strconv.Itoa\<close> and the verb \<open>%d\<close> of \<open>fmt.Sprintf\<close> on an \<open>int\<close>.\<close>

definition Itoa :: "int \<Rightarrow> string" where
  "Itoa i = (if i < 0 then CHR ''-'' # natToDec (nat (- i)) else natToDec (nat i))"

section \<open>Doctor: classification of database errors\<close>

text \<open>
  \<open>classifyDatabaseError\<close> of the doctor package: a \<open>switch\<close> whose cases are tried in
  the order written; the result is the pair \<open>(errorType, recoverySteps)\<close>.
\<close>

definition classifyDatabaseError :: "string \<Rightarrow> int \<Rightarrow> bool \<Rightarrow> string \<times> string" where
  "classifyDatabaseError errMsg jsonlCount jsonlAvailable =
    (if Contains errMsg ''database is locked'' then
       (''Database is locked'',
        ''1. Check for running bd processes: ps aux | grep bd\<newline>'' @
        ''2. Kill any stale processes\<newline>'' @
        ''3. Run: bd doctor --fix (removes stale lock files including Dolt internal locks)\<newline>'' @
        ''4. If still stuck, manually remove: rm .beads/dolt-access.lock .beads/dolt/*/.dolt/noms/LOCK'')
     else if Contains errMsg ''not a database'' \<or> Contains errMsg ''file is not a database'' then
       (''File is not a valid SQLite database'',
        if jsonlAvailable then
          ''Database file is corrupted beyond repair.\<newline>\<newline>'' @
          ''Recovery steps:\<newline>'' @
          ''1. Backup corrupt database: mv .beads/beads.db .beads/beads.db.broken\<newline>'' @
          ''2. Rebuild from JSONL ('' @ Itoa jsonlCount @ '' issues): bd doctor --fix --force --source=jsonl\<newline>'' @
          ''3. Verify: bd stats''
        else
          ''Database file is corrupted and no JSONL backup found.\<newline>'' @
          ''Manual recovery required:\<newline>'' @
          ''1. Restore from git: git checkout HEAD -- .beads/issues.jsonl\<newline>'' @
          ''2. Rebuild database: bd doctor --fix --force'')
     else if Contains errMsg ''migration'' \<or> Contains errMsg ''validation failed'' then
       (''Database migration or validation failed'',
        if jsonlAvailable then
          ''Database has validation errors (possibly orphaned dependencies).\<newline>\<newline>'' @
          ''Recovery steps:\<newline>'' @
          ''1. Backup database: mv .beads/beads.db .beads/beads.db.broken\<newline>'' @
          ''2. Rebuild from JSONL ('' @ Itoa jsonlCount @ '' issues): bd doctor --fix --force --source=jsonl\<newline>'' @
          ''3. Verify: bd stats\<newline>\<newline>'' @
          ''Alternative: bd doctor --fix --force (attempts to repair in-place)''
        else
          ''Database validation failed and no JSONL backup available.\<newline>'' @
          ''Try: bd doctor --fix --force'')
     else
       (''Failed to open database'',
        if jsonlAvailable then
          ''Run 'bd doctor --fix --source=jsonl' to rebuild from JSONL ('' @ Itoa jsonlCount @ '' issues)''
        else
          ''Run 'bd doctor --fix --force' to attempt recovery''))"

section \<open>The configuration package\<close>

subsection \<open>Library functions on strings\<close>

text \<open>
  \<open>strings.ToUpper\<close>, \<open>strings.ToLower\<close> and \<open>strings.TrimSpace\<close> work on the Unicode
  characters that the bytes encode. The functions of the package take them as parameters,
  in a record, and what is proved holds for every choice of the three.
\<close>

record goStrings =
  strToUpper :: "string \<Rightarrow> string"
  strToLower :: "string \<Rightarrow> string"
  strTrimSpace :: "string \<Rightarrow> string"

text \<open>
  On ASCII text the three library functions are the following: the letters \<open>a\<close> to \<open>z\<close>
  and \<open>A\<close> to \<open>Z\<close> change case, and the six ASCII white-space bytes are trimmed.
\<close>

definition toUpperByte :: "char \<Rightarrow> char" where
  "toUpperByte c =
    (case map_of (zip ''abcdefghijklmnopqrstuvwxyz'' ''ABCDEFGHIJKLMNOPQRSTUVWXYZ'') c of
       None \<Rightarrow> c | Some u \<Rightarrow> u)"

definition toLowerByte :: "char \<Rightarrow> char" where
  "toLowerByte c =
    (case map_of (zip ''ABCDEFGHIJKLMNOPQRSTUVWXYZ'' ''abcdefghijklmnopqrstuvwxyz'') c of
       None \<Rightarrow> c | Some l \<Rightarrow> l)"

definition ToUpper :: "string \<Rightarrow> string" where
  "ToUpper s = map toUpperByte s"

definition ToLower :: "string \<Rightarrow> string" where
  "ToLower s = map toLowerByte s"

definition isSpaceByte :: "char \<Rightarrow> bool" where
  "isSpaceByte c =
    (c = CHR '' '' \<or> c = CHR 0x09 \<or> c = CHR 0x0A \<or> c = CHR 0x0B \<or> c = CHR 0x0C \<or> c = CHR 0x0D)"

definition TrimSpace :: "string \<Rightarrow> string" where
  "TrimSpace s = rev (dropWhile isSpaceByte (rev (dropWhile isSpaceByte s)))"

definition asciiStrings :: goStrings where
  "asciiStrings = \<lparr>strToUpper = ToUpper, strToLower = ToLower, strTrimSpace = TrimSpace\<rparr>"

text \<open>\<open>strings.ReplaceAll(s, old, new)\<close> where \<open>old\<close> and \<open>new\<close> are one byte each.\<close>

definition ReplaceAllByte :: "string \<Rightarrow> char \<Rightarrow> char \<Rightarrow> string" where
  "ReplaceAllByte s old new = map (\<lambda>c. if c = old then new else c) s"

text \<open>
  \<open>strings.SplitN(key, ".", 2)\<close>: the text before the first dot and the text after it, or
  the key alone when it has no dot. \<open>cutDot\<close> cuts the key at its first dot.
\<close>

fun cutDot :: "string \<Rightarrow> (string \<times> string) option" where
  "cutDot [] = None"
| "cutDot (c # cs) =
     (if c = CHR ''.'' then Some ([], cs)
      else (case cutDot cs of None \<Rightarrow> None | Some (a, b) \<Rightarrow> Some (c # a, b)))"

definition SplitN2 :: "string \<Rightarrow> string list" where
  "SplitN2 key = (case cutDot key of None \<Rightarrow> [key] | Some (a, b) \<Rightarrow> [a, b])"

text \<open>\<open>strings.Split(key, ".")\<close>: every segment between dots.\<close>

fun splitDots :: "string \<Rightarrow> string list" where
  "splitDots [] = [[]]"
| "splitDots (c # cs) =
     (if c = CHR ''.'' then [] # splitDots cs
      else (case splitDots cs of [] \<Rightarrow> [[c]] | p # ps \<Rightarrow> (c # p) # ps))"

text \<open>
  \<open>filepath.Join(dir, name)\<close> for a directory path that is clean and has no trailing
  separator.
\<close>

definition pathJoin :: "string \<Rightarrow> string \<Rightarrow> string" where
  "pathJoin dir name = dir @ ''/'' @ name"

subsection \<open>Values and the viper singleton\<close>

text \<open>
  The Go values that \<open>yaml.Unmarshal\<close> stores in an \<open>interface{}\<close>: scalars, sequences,
  \<open>map[string]interface{}\<close> (\<open>StrMap\<close>), and \<open>map[interface{}]interface{}\<close> (\<open>GenMap\<close>, for a
  mapping with a key that is not a string). \<open>Unencodable\<close> stands for a Go value that
  \<open>yaml.Marshal\<close> rejects. A Go map is an association list read with \<open>map_of\<close> and
  written with \<open>AList.update\<close>.
\<close>

datatype val =
    Scalar string
  | Seq "val list"
  | StrMap "(string \<times> val) list"
  | GenMap "(val \<times> val) list"
  | Unencodable

fun encodable :: "val \<Rightarrow> bool" where
  "encodable (Scalar s) = True"
| "encodable (Seq xs) = list_all encodable xs"
| "encodable (StrMap kvs) = list_all (\<lambda>kv. encodable (snd kv)) kvs"
| "encodable (GenMap kvs) = list_all (\<lambda>kv. encodable (fst kv) \<and> encodable (snd kv)) kvs"
| "encodable Unencodable = False"

text \<open>
  The package variable \<open>v\<close> is a \<open>viper option\<close>: \<open>None\<close> before \<open>Initialize\<close> and after
  \<open>ResetForTesting\<close>. Of the library's state the record keeps the path of the config file
  and the overrides written by \<open>Set\<close>, and the answers that the library gives in that
  state: \<open>inConfig\<close> for \<open>InConfig\<close>, \<open>stringSetting\<close> for \<open>GetString\<close> (the merged view
  of overrides, environment, config file and defaults) and \<open>stringMapSetting\<close> for
  \<open>GetStringMapString\<close>, a Go map given as the sequence of its entries in the order the
  \<open>range\<close> loop visits them. How \<open>Set\<close> changes the later answers of the getters is not
  modelled.
\<close>

record viper =
  configFile :: string
  override :: "(string \<times> val) list"
  inConfig :: "string \<Rightarrow> bool"
  stringSetting :: "string \<Rightarrow> string"
  stringMapSetting :: "string \<Rightarrow> (string \<times> string) list"

definition viperSet :: "goStrings \<Rightarrow> viper \<Rightarrow> string \<Rightarrow> val \<Rightarrow> viper" where
  "viperSet go vp key value =
    vp\<lparr>override := AList.update (strToLower go key) value (override vp)\<rparr>"

definition ConfigFileUsed :: "viper \<Rightarrow> string" where
  "ConfigFileUsed vp = configFile vp"

definition SetConfigFile :: "viper \<Rightarrow> string \<Rightarrow> viper" where
  "SetConfigFile vp path = (if path \<noteq> '''' then vp\<lparr>configFile := path\<rparr> else vp)"

text \<open>\<open>os.Getenv\<close>: the value of the variable, empty when it is not set.\<close>

definition Getenv :: "(string \<rightharpoonup> string) \<Rightarrow> string \<Rightarrow> string" where
  "Getenv env name = (case env name of None \<Rightarrow> '''' | Some s \<Rightarrow> s)"

subsection \<open>GetValueSource\<close>

datatype ConfigSource = SourceDefault | SourceConfigFile | SourceEnvVar | SourceFlag

definition GetValueSource ::
  "goStrings \<Rightarrow> viper option \<Rightarrow> (string \<rightharpoonup> string) \<Rightarrow> string \<Rightarrow> ConfigSource" where
  "GetValueSource go v env key =
    (case v of
       None \<Rightarrow> SourceDefault
     | Some vp \<Rightarrow>
        (let envKey = ''BD_'' @
               strToUpper go (ReplaceAllByte (ReplaceAllByte key CHR ''-'' CHR ''_'') CHR ''.'' CHR ''_'')
         in if Getenv env envKey \<noteq> '''' then SourceEnvVar
            else
              (let beadsEnvKey = ''BEADS_'' @
                     strToUpper go (ReplaceAllByte (ReplaceAllByte key CHR ''-'' CHR ''_'') CHR ''.'' CHR ''_'')
               in if Getenv env beadsEnvKey \<noteq> '''' then SourceEnvVar
                  else if inConfig vp key then SourceConfigFile
                  else SourceDefault)))"

text \<open>
  The name under which \<open>GetValueSource\<close> looks a key up in the environment, for a prefix:
  hyphens and dots replaced by underscores, in upper case, after the prefix.
\<close>

definition envKeyOf :: "goStrings \<Rightarrow> string \<Rightarrow> string \<Rightarrow> string" where
  "envKeyOf go pre key =
    pre @ strToUpper go (ReplaceAllByte (ReplaceAllByte key CHR ''-'' CHR ''_'') CHR ''.'' CHR ''_'')"

subsection \<open>Per-field conflict strategies\<close>

type_synonym FieldStrategy = string

text \<open>
  Modelled from the spec: the constants \<open>FieldStrategyNewest\<close> and the table
  \<open>validFieldStrategies\<close> are declared in a file of the package that is not among the
  sources. Section 4.2.1 names the strategies \<open>newest\<close>, \<open>ours\<close>, \<open>theirs\<close>, \<open>manual\<close>,
  \<open>union\<close> and \<open>max\<close>.
\<close>

definition FieldStrategyNewest :: FieldStrategy where
  "FieldStrategyNewest = ''newest''"

definition validFieldStrategies :: "FieldStrategy \<Rightarrow> bool" where
  "validFieldStrategies s =
     (s = ''newest'' \<or> s = ''ours'' \<or> s = ''theirs'' \<or> s = ''manual'' \<or> s = ''union'' \<or> s = ''max'')"

text \<open>
  A call of \<open>logConfigWarning\<close> for an invalid per-field strategy, with the field and the
  configured text.
\<close>

datatype configWarning = InvalidFieldStrategy string string

text \<open>
  The \<open>range\<close> loop of \<open>GetFieldStrategies\<close> over the entries of the map, with the result
  map and the warnings logged so far.
\<close>

fun fieldStrategiesLoop ::
  "goStrings \<Rightarrow> (string \<times> string) list \<Rightarrow> (string \<rightharpoonup> FieldStrategy) \<Rightarrow> configWarning list
    \<Rightarrow> (string \<rightharpoonup> FieldStrategy) \<times> configWarning list" where
  "fieldStrategiesLoop go [] result logged = (result, logged)"
| "fieldStrategiesLoop go ((field, strategyStr) # rest) result logged =
     (let strategy = strToLower go (strTrimSpace go strategyStr)
      in if \<not> validFieldStrategies strategy
         then fieldStrategiesLoop go rest result (logged @ [InvalidFieldStrategy field strategyStr])
         else fieldStrategiesLoop go rest (result(field \<mapsto> strategy)) logged)"

definition GetFieldStrategies ::
  "goStrings \<Rightarrow> viper option \<Rightarrow> (string \<rightharpoonup> FieldStrategy) \<times> configWarning list" where
  "GetFieldStrategies go v =
    (case v of
       None \<Rightarrow> (Map.empty, [])
     | Some vp \<Rightarrow> fieldStrategiesLoop go (stringMapSetting vp ''conflict.fields'') Map.empty [])"

definition GetFieldStrategy ::
  "goStrings \<Rightarrow> viper option \<Rightarrow> string \<Rightarrow> FieldStrategy \<times> configWarning list" where
  "GetFieldStrategy go v field =
    (let (fields, logged) = GetFieldStrategies go v
     in (case fields field of Some strategy \<Rightarrow> (strategy, logged)
         | None \<Rightarrow> (FieldStrategyNewest, logged)))"

definition GetString :: "viper option \<Rightarrow> string \<Rightarrow> string" where
  "GetString v key = (case v of None \<Rightarrow> '''' | Some vp \<Rightarrow> stringSetting vp key)"

text \<open>
  Modelled from the spec: \<open>GetConflictStrategy\<close> is not among the sources. Section 4.3
  gives \<open>conflict.strategy\<close> the values \<open>newest\<close>, \<open>ours\<close>, \<open>theirs\<close> and \<open>manual\<close>, and
  \<open>Initialize\<close> sets its default to \<open>newest\<close>.
\<close>

definition GetConflictStrategy :: "viper option \<Rightarrow> string" where
  "GetConflictStrategy v =
    (let s = GetString v ''conflict.strategy''
     in if s = ''newest'' \<or> s = ''ours'' \<or> s = ''theirs'' \<or> s = ''manual'' then s else ''newest'')"

subsection \<open>SaveConfigValue\<close>

text \<open>
  The state that \<open>SaveConfigValue\<close> reads and writes: the package variable \<open>v\<close> and the
  YAML files. A file is modelled by the map that \<open>yaml.Unmarshal\<close> leaves in an empty
  \<open>map[string]interface{}\<close> when given its bytes (the empty map for bytes it rejects), and
  writing the bytes of \<open>yaml.Marshal m\<close> stores \<open>m\<close>; comments and layout are outside the
  model. \<open>unwritable\<close> holds the paths at which \<open>os.WriteFile\<close> fails.
\<close>

record configState =
  viperVar :: "viper option"
  yamlFiles :: "string \<rightharpoonup> (string \<times> val) list"
  unwritable :: "string \<Rightarrow> bool"

datatype configError = NotInitialized | MarshalFailed | WriteFailed

function setNestedKey :: "(string \<times> val) list \<Rightarrow> string \<Rightarrow> val \<Rightarrow> (string \<times> val) list" where
  "setNestedKey m key value =
    (let parts = SplitN2 key
     in if length parts = 1 then AList.update key value m
        else
          (let sub = (case map_of m (parts ! 0) of Some (StrMap s) \<Rightarrow> s | _ \<Rightarrow> [])
           in AList.update (parts ! 0) (StrMap (setNestedKey sub (parts ! 1) value)) m))"
  by pat_completeness auto
termination
proof (relation "measure (\<lambda>(m, key, value). length key)")
  show "wf (measure (\<lambda>(m, key, value). length key))" by simp
next
  fix m :: "(string \<times> val) list" and key :: string and x :: val
    and parts :: "string list" and sub :: "(string \<times> val) list"
  assume parts: "parts = SplitN2 key" and two: "length parts \<noteq> 1"
  have shorter: "cutDot k = Some (a, b) \<Longrightarrow> length b < length k" for k a b
    by (induction k arbitrary: a b) (auto split: if_splits option.splits)
  from parts two obtain a b where "cutDot key = Some (a, b)" and "parts = [a, b]"
    by (cases "cutDot key") (auto simp add: SplitN2_def)
  then have "length (parts ! 1) < length key" using shorter [of key a b] by simp
  then show "((sub, parts ! 1, x), (m, key, x)) \<in> measure (\<lambda>(m, key, value). length key)"
    by simp
qed

declare setNestedKey.simps [simp del]

definition SaveConfigValue ::
  "goStrings \<Rightarrow> configState \<Rightarrow> string \<Rightarrow> val \<Rightarrow> string \<Rightarrow> configError option \<times> configState" where
  "SaveConfigValue go st key value beadsDir =
    (case viperVar st of
       None \<Rightarrow> (Some NotInitialized, st)
     | Some vp0 \<Rightarrow>
        (let vp1 = viperSet go vp0 key value;
             usedPath = ConfigFileUsed vp1;
             configPath = (if usedPath = '''' then pathJoin beadsDir ''config.yaml'' else usedPath);
             vp2 = (if usedPath = '''' then SetConfigFile vp1 configPath else vp1);
             st1 = st\<lparr>viperVar := Some vp2\<rparr>;
             existing = (case yamlFiles st1 configPath of None \<Rightarrow> [] | Some data \<Rightarrow> data);
             out = setNestedKey existing key value
         in if \<not> encodable (StrMap out) then (Some MarshalFailed, st1)
            else if unwritable st1 configPath then (Some WriteFailed, st1)
            else (None, st1\<lparr>yamlFiles := (yamlFiles st1)(configPath \<mapsto> out)\<rparr>)))"

text \<open>The value at a path of keys, going down through string-keyed maps only.\<close>

fun lookupPath :: "(string \<times> val) list \<Rightarrow> string list \<Rightarrow> val option" where
  "lookupPath m [] = None"
| "lookupPath m [k] = map_of m k"
| "lookupPath m (k # k' # ks) =
     (case map_of m k of Some (StrMap sub) \<Rightarrow> lookupPath sub (k' # ks) | _ \<Rightarrow> None)"

section \<open>The dolt command\<close>

subsection \<open>Parsing a decimal integer\<close>

text \<open>
  \<open>strconv.Atoi\<close> on a 64-bit platform: an optional sign, then one or more decimal digits
  and nothing else; the value has to fit a signed 64-bit integer. \<open>None\<close> is a non-nil
  error.
\<close>

definition isDigit :: "char \<Rightarrow> bool" where
  "isDigit c = (let n = (of_char c :: nat) in 48 \<le> n \<and> n \<le> 57)"

fun decimalValue :: "string \<Rightarrow> nat \<Rightarrow> nat" where
  "decimalValue [] acc = acc"
| "decimalValue (c # cs) acc = decimalValue cs (acc * 10 + (of_char c - 48))"

definition Atoi :: "string \<Rightarrow> int option" where
  "Atoi s =
    (let neg = (case s of [] \<Rightarrow> False | c # cs \<Rightarrow> c = CHR ''-'');
         digits = (case s of [] \<Rightarrow> []
                   | c # cs \<Rightarrow> if c = CHR ''-'' \<or> c = CHR ''+'' then cs else s)
     in if digits = [] \<or> \<not> list_all isDigit digits then None
        else
          (let n = (if neg then - int (decimalValue digits 0) else int (decimalValue digits 0))
           in if n < - (2 ^ 63) \<or> 2 ^ 63 - 1 < n then None else Some n))"

subsection \<open>The workspace metadata and the state of the command\<close>

text \<open>
  The fields of \<open>configfile.Config\<close> that the commands and the doctor read or write.
\<close>

record Config =
  Backend :: string
  Database :: string
  DoltMode :: string
  DoltDatabase :: string
  DoltServerHost :: string
  DoltServerPort :: int
  DoltServerUser :: string

text \<open>
  What \<open>configfile.Load\<close> returns for a directory: an error, \<open>nil\<close> without an error (no
  \<open>metadata.json\<close>), or the configuration read from \<open>metadata.json\<close>.
\<close>

datatype loadResult = LoadError string | NoConfig | Loaded Config

text \<open>
  Modelled from the spec: the constants \<open>DoltModeEmbedded\<close> and \<open>DoltModeServer\<close> of the
  package \<open>configfile\<close>, which is not among the sources. Section 6 gives \<open>mode\<close> the values
  \<open>embedded\<close> and \<open>server\<close>, and so does the help text of the command.
\<close>

definition DoltModeEmbedded :: string where
  "DoltModeEmbedded = ''embedded''"

definition DoltModeServer :: string where
  "DoltModeServer = ''server''"

text \<open>
  What the command takes from packages that are not among the sources, as parameters: the
  constant \<open>configfile.BackendDolt\<close>, the methods \<open>GetBackend\<close>, \<open>GetDoltServerHost\<close> and
  \<open>GetDoltServerPort\<close> of a configuration (the last two also read the environment),
  \<open>configfile.DefaultConfig\<close>, \<open>ui.RenderWarn\<close>, and the error, if any, that
  \<open>config.SetYamlConfig\<close> returns for a key and a value.
\<close>

record externals =
  BackendDolt :: string
  GetBackend :: "Config \<Rightarrow> string"
  GetDoltServerHost :: "Config \<Rightarrow> string"
  GetDoltServerPort :: "Config \<Rightarrow> int"
  DefaultConfig :: Config
  RenderWarn :: "string \<Rightarrow> string"
  SetYamlConfigError :: "string \<Rightarrow> string \<Rightarrow> string option"

text \<open>
  What is printed on standard output: a text, or the object given to \<open>outputJSON\<close> as its
  list of keys and values.
\<close>

datatype printed = Text string | Json "(string \<times> string) list"

text \<open>
  The state of a run of the command: the directory that \<open>beads.FindBeadsDir\<close> finds (empty
  when there is none), for each directory what \<open>configfile.Load\<close> returns there and the
  error, if any, with which \<open>Save\<close> fails there, the text files (the audit log) and the paths
  that cannot be opened for appending, the environment, the formatted time of the clock, the
  flag \<open>jsonOutput\<close>, what has been printed, and the calls of \<open>config.SetYamlConfig\<close> that
  succeeded.
\<close>

record bdState =
  beadsDirFound :: string
  metadataFiles :: "string \<Rightarrow> loadResult"
  saveError :: "string \<Rightarrow> string option"
  textFiles :: "string \<rightharpoonup> string"
  unopenable :: "string \<Rightarrow> bool"
  environment :: "string \<rightharpoonup> string"
  now :: string
  jsonOutput :: bool
  stdout :: "printed list"
  stderr :: "string list"
  yamlConfigSet :: "(string \<times> string) list"

text \<open>The way a function of the command ends: it returns, or it calls \<open>os.Exit\<close>.\<close>

datatype outcome = Returned | Exit int

definition eprint :: "bdState \<Rightarrow> string list \<Rightarrow> bdState" where
  "eprint st msgs = st\<lparr>stderr := stderr st @ msgs\<rparr>"

definition oprint :: "bdState \<Rightarrow> printed list \<Rightarrow> bdState" where
  "oprint st items = st\<lparr>stdout := stdout st @ items\<rparr>"

subsection \<open>logDoltConfigChange\<close>

definition logDoltConfigChange :: "bdState \<Rightarrow> string \<Rightarrow> string \<Rightarrow> string \<Rightarrow> bdState" where
  "logDoltConfigChange st beadsDir key value =
    (let logPath = pathJoin beadsDir ''dolt-config.log'';
         actor = (if Getenv (environment st) ''BD_ACTOR'' = '''' then ''unknown''
                  else Getenv (environment st) ''BD_ACTOR'');
         entry = now st @ '' actor='' @ actor @ '' key='' @ key @ '' value='' @ value @
                 '' beads_dir='' @ beadsDir @ ''\<newline>''
     in if unopenable st logPath then st
        else st\<lparr>textFiles := (textFiles st)(logPath \<mapsto>
                (case textFiles st logPath of None \<Rightarrow> entry | Some old \<Rightarrow> old @ entry))\<rparr>)"

subsection \<open>setDoltConfig\<close>

text \<open>
  The \<open>switch\<close> of \<open>setDoltConfig\<close> on the key: the lines it prints on standard error before
  it exits with status 1, or the changed configuration with the key for \<open>config.yaml\<close>.
\<close>

definition setDoltConfigSwitch :: "Config \<Rightarrow> string \<Rightarrow> string \<Rightarrow> string list + Config \<times> string" where
  "setDoltConfigSwitch cfg key value =
    (if key = ''mode'' then
       (if value \<noteq> DoltModeEmbedded \<and> value \<noteq> DoltModeServer
        then Inl [''Error: mode must be '' @ [CHR 0x27] @ DoltModeEmbedded @ [CHR 0x27] @ '' or '' @
                  [CHR 0x27] @ DoltModeServer @ [CHR 0x27] @ ''\<newline>'']
        else Inr (cfg\<lparr>DoltMode := value\<rparr>, ''dolt.mode''))
     else if key = ''database'' then
       (if value = '''' then Inl [''Error: database name cannot be empty\<newline>'']
        else Inr (cfg\<lparr>DoltDatabase := value\<rparr>, ''dolt.database''))
     else if key = ''host'' then
       (if value = '''' then Inl [''Error: host cannot be empty\<newline>'']
        else Inr (cfg\<lparr>DoltServerHost := value\<rparr>, ''dolt.host''))
     else if key = ''port'' then
       (case Atoi value of
          None \<Rightarrow> Inl [''Error: port must be a valid port number (1-65535)\<newline>'']
        | Some port \<Rightarrow>
            if port \<le> 0 \<or> port > 65535
            then Inl [''Error: port must be a valid port number (1-65535)\<newline>'']
            else Inr (cfg\<lparr>DoltServerPort := port\<rparr>, ''dolt.port''))
     else if key = ''user'' then
       (if value = '''' then Inl [''Error: user cannot be empty\<newline>'']
        else Inr (cfg\<lparr>DoltServerUser := value\<rparr>, ''dolt.user''))
     else Inl [''Error: unknown key '' @ [CHR 0x27] @ key @ [CHR 0x27] @ ''\<newline>'',
               ''Valid keys: mode, database, host, port, user\<newline>''])"

text \<open>
  The end of \<open>setDoltConfig\<close>, after \<open>metadata.json\<close> has been saved: what it prints, and
  the update of \<open>config.yaml\<close> when it is asked for.
\<close>

definition setDoltConfigReport ::
  "externals \<Rightarrow> bdState \<Rightarrow> string \<Rightarrow> string \<Rightarrow> bool \<Rightarrow> string \<Rightarrow> outcome \<times> bdState" where
  "setDoltConfigReport ext st key value updateConfig yamlKey =
    (if jsonOutput st then
       (Returned,
        oprint st
          [Json ([(''key'', key), (''value'', value), (''location'', ''metadata.json'')] @
                 (if updateConfig then [(''config_yaml_updated'', ''true'')] else []))])
     else
       (let st3 = oprint st [Text (''Set '' @ key @ '' = '' @ value @ '' (in metadata.json)\<newline>'')]
        in if updateConfig \<and> yamlKey \<noteq> '''' then
             (case SetYamlConfigError ext yamlKey value of
                Some err \<Rightarrow>
                  (Returned,
                   oprint st3
                     [Text (RenderWarn ext (''Warning: failed to update config.yaml: '' @ err) @
                            ''\<newline>'')])
              | None \<Rightarrow>
                  (Returned,
                   oprint (st3\<lparr>yamlConfigSet := yamlConfigSet st3 @ [(yamlKey, value)]\<rparr>)
                     [Text (''Set '' @ yamlKey @ '' = '' @ value @ '' (in config.yaml)\<newline>'')]))
           else (Returned, st3)))"

definition setDoltConfig ::
  "externals \<Rightarrow> bdState \<Rightarrow> string \<Rightarrow> string \<Rightarrow> bool \<Rightarrow> outcome \<times> bdState" where
  "setDoltConfig ext st key value updateConfig =
    (let beadsDir = beadsDirFound st
     in if beadsDir = '''' then
          (Exit 1, eprint st [''Error: not in a beads repository (no .beads directory found)\<newline>''])
        else
          (case metadataFiles st beadsDir of
             LoadError err \<Rightarrow> (Exit 1, eprint st [''Error loading config: '' @ err @ ''\<newline>''])
           | loaded \<Rightarrow>
              (let cfg = (case loaded of Loaded c \<Rightarrow> c | _ \<Rightarrow> DefaultConfig ext)
               in if GetBackend ext cfg \<noteq> BackendDolt ext then
                    (Exit 1, eprint st [''Error: not using Dolt backend\<newline>''])
                  else
                    (case setDoltConfigSwitch cfg key value of
                       Inl msgs \<Rightarrow> (Exit 1, eprint st msgs)
                     | Inr (cfg', yamlKey) \<Rightarrow>
                        (let st1 = logDoltConfigChange st beadsDir key value
                         in (case saveError st1 beadsDir of
                               Some err \<Rightarrow>
                                 (Exit 1, eprint st1 [''Error saving config: '' @ err @ ''\<newline>''])
                             | None \<Rightarrow>
                                 setDoltConfigReport ext
                                   (st1\<lparr>metadataFiles := (metadataFiles st1)(beadsDir := Loaded cfg')\<rparr>)
                                   key value updateConfig yamlKey))))))"

subsection \<open>testServerConnection\<close>

text \<open>
  \<open>net.JoinHostPort\<close>: the host in brackets when it contains a colon.
\<close>

definition JoinHostPort :: "string \<Rightarrow> string \<Rightarrow> string" where
  "JoinHostPort host port =
    (if CHR '':'' \<in> set host then ''['' @ host @ '']:'' @ port
     else host @ '':'' @ port)"

text \<open>
  The network as the function sees it: \<open>dialFails\<close> tells, for a network, an address and a
  timeout in nanoseconds, whether \<open>net.DialTimeout\<close> returns an error. The state records
  the dials made and the connections closed.
\<close>

record netState =
  dialFails :: "string \<Rightarrow> string \<Rightarrow> int \<Rightarrow> bool"
  dialed :: "(string \<times> string \<times> int) list"
  closed :: "string list"

definition Second :: int where
  "Second = 1000000000"

definition testServerConnection :: "externals \<Rightarrow> netState \<Rightarrow> Config \<Rightarrow> bool \<times> netState" where
  "testServerConnection ext net cfg =
    (let host = GetDoltServerHost ext cfg;
         port = GetDoltServerPort ext cfg;
         addr = JoinHostPort host (Itoa port);
         net1 = net\<lparr>dialed := dialed net @ [(''tcp'', addr, 3 * Second)]\<rparr>
     in if dialFails net ''tcp'' addr (3 * Second) then (False, net1)
        else (True, net1\<lparr>closed := closed net1 @ [addr]\<rparr>))"

section \<open>Doctor: the check of the database version\<close>

subsection \<open>The result of a check and what the check sees\<close>

text \<open>
  Modelled from the spec: the status constants \<open>StatusOK\<close>, \<open>StatusWarning\<close> and
  \<open>StatusError\<close> and the struct \<open>DoctorCheck\<close> are declared in a file of the package that is
  not among the sources. Section 4.5 gives a check the result
  \<open>{status \<in> {ok, warning, error}, message, detail, fix-hint}\<close>; the checks also set a name.
\<close>

datatype checkStatus = StatusOK | StatusWarning | StatusError

record DoctorCheck =
  Name :: string
  Status :: checkStatus
  Message :: string
  Detail :: string
  Fix :: string

text \<open>\<open>os.Stat\<close> on a path: no error, an error for which \<open>os.IsNotExist\<close> holds, or another error.\<close>

datatype statResult = StatOk | StatNotExist | StatFailed

text \<open>The struct \<open>localConfig\<close> that \<open>isNoDbModeConfigured\<close> decodes \<open>config.yaml\<close> into.\<close>

record localConfig =
  SyncBranch :: string
  NoDb :: bool

text \<open>
  A Dolt store opened read-only: what \<open>GetMetadata\<close> returns for \<open>bd_version\<close>, the error
  text on the left.
\<close>

record doltStore =
  bdVersion :: "string + string"

text \<open>
  The answer of the second query of \<open>getDatabaseVersionFromPath\<close>, for the table
  \<open>metadata\<close>: a row, \<open>sql.ErrNoRows\<close>, or another error.
\<close>

datatype rowResult = RowFound | ErrNoRows | RowFailed

text \<open>
  What the checks take from the operating system, from libraries and from packages that are
  not among the sources, as parameters:
  \<^item> \<open>backendAndBeadsDir\<close>: \<open>getBackendAndBeadsDir\<close>;
  \<^item> \<open>doltBackend\<close>: the constant \<open>configfile.BackendDolt\<close>; \<open>canonicalDatabaseName\<close>: the
    constant \<open>beads.CanonicalDatabaseName\<close>;
  \<^item> \<open>stat\<close>: \<open>os.Stat\<close>; \<open>readFile\<close>: \<open>os.ReadFile\<close> and \<open>os.Open\<close>, \<open>None\<close> for an error;
  \<^item> \<open>loadMetadata\<close>: \<open>configfile.Load\<close>; \<open>databasePath\<close>: the method \<open>DatabasePath\<close>;
  \<^item> \<open>openDolt\<close>: \<open>dolt.NewFromConfigWithOptions\<close> with \<open>ReadOnly\<close>, the error text on the
    left;
  \<^item> \<open>unmarshalLocalConfig\<close>: \<open>yaml.Unmarshal\<close> into a \<open>localConfig\<close>, \<open>None\<close> for an error;
  \<^item> \<open>scanLines\<close>: the lines that a \<open>bufio.Scanner\<close> delivers from the bytes of a file, and
    whether \<open>scanner.Err()\<close> is an error at the end;
  \<^item> \<open>unmarshalIssueId\<close>: \<open>json.Unmarshal\<close> of a line into a map, \<open>None\<close> for an error, and
    otherwise the value of the key \<open>id\<close> when it is a string;
  \<^item> \<open>rangeOrder\<close>: the order in which a \<open>range\<close> loop visits the entries of a map;
  \<^item> \<open>sqliteOpenFails\<close>, \<open>sqliteVersionRow\<close>, \<open>sqliteMetadataTable\<close>: \<open>sql.Open\<close> and the two
    queries of \<open>getDatabaseVersionFromPath\<close>.
\<close>

record doctorEnv =
  backendAndBeadsDir :: "string \<Rightarrow> string \<times> string"
  doltBackend :: string
  canonicalDatabaseName :: string
  stat :: "string \<Rightarrow> statResult"
  readFile :: "string \<Rightarrow> string option"
  loadMetadata :: "string \<Rightarrow> loadResult"
  databasePath :: "Config \<Rightarrow> string \<Rightarrow> string"
  openDolt :: "string \<Rightarrow> string + doltStore"
  unmarshalLocalConfig :: "string \<Rightarrow> localConfig option"
  scanLines :: "string \<Rightarrow> string list \<times> bool"
  unmarshalIssueId :: "string \<Rightarrow> string option option"
  rangeOrder :: "(string \<times> int) list \<Rightarrow> (string \<times> int) list"
  sqliteOpenFails :: "string \<Rightarrow> bool"
  sqliteVersionRow :: "string \<Rightarrow> string option"
  sqliteMetadataTable :: "string \<Rightarrow> rowResult"

subsection \<open>Counting the issues of a JSONL file\<close>

datatype jsonlError = OpenFailed | ReadFailed | MalformedLines int

text \<open>The text before the last dash of an identifier, or the identifier when it has none.\<close>

definition idPrefix :: "string \<Rightarrow> string" where
  "idPrefix ident =
    (if CHR ''-'' \<in> set ident then rev (tl (dropWhile (\<lambda>c. c \<noteq> CHR ''-'') (rev ident)))
     else ident)"

text \<open>\<open>prefixes[p]++\<close> on a map from prefixes to counts.\<close>

definition bumpPrefix :: "(string \<times> int) list \<Rightarrow> string \<Rightarrow> (string \<times> int) list" where
  "bumpPrefix prefixCounts p =
    AList.update p ((case map_of prefixCounts p of None \<Rightarrow> 0 | Some n \<Rightarrow> n) + 1) prefixCounts"

text \<open>
  The loop of \<open>CountJSONLIssues\<close> over the scanned lines, with the count, the prefixes and
  the number of malformed lines so far.
\<close>

fun countLines ::
  "doctorEnv \<Rightarrow> string list \<Rightarrow> int \<Rightarrow> (string \<times> int) list \<Rightarrow> int
    \<Rightarrow> int \<times> (string \<times> int) list \<times> int" where
  "countLines env [] count prefixCounts errorCount = (count, prefixCounts, errorCount)"
| "countLines env (line # rest) count prefixCounts errorCount =
    (if line = [] then countLines env rest count prefixCounts errorCount
     else
       (case unmarshalIssueId env line of
          None \<Rightarrow> countLines env rest count prefixCounts (errorCount + 1)
        | Some None \<Rightarrow> countLines env rest count prefixCounts errorCount
        | Some (Some ident) \<Rightarrow>
            if ident \<noteq> []
            then countLines env rest (count + 1) (bumpPrefix prefixCounts (idPrefix ident)) errorCount
            else countLines env rest count prefixCounts errorCount))"

definition CountJSONLIssues ::
  "doctorEnv \<Rightarrow> string \<Rightarrow> int \<times> (string \<times> int) list \<times> jsonlError option" where
  "CountJSONLIssues env jsonlPath =
    (case readFile env jsonlPath of
       None \<Rightarrow> (0, [], Some OpenFailed)
     | Some bytes \<Rightarrow>
        (let (lines, scanFailed) = scanLines env bytes;
             (count, prefixCounts, errorCount) = countLines env lines 0 [] 0
         in if scanFailed then (count, prefixCounts, Some ReadFailed)
            else if errorCount > 0 then (count, prefixCounts, Some (MalformedLines errorCount))
            else (count, prefixCounts, None)))"

definition countIssuesInJSONLFile :: "doctorEnv \<Rightarrow> string \<Rightarrow> int" where
  "countIssuesInJSONLFile env jsonlPath = fst (CountJSONLIssues env jsonlPath)"

text \<open>The loop of \<open>detectPrefixFromJSONL\<close>: the first entry visited with the largest count.\<close>

fun mostCommon :: "(string \<times> int) list \<Rightarrow> string \<Rightarrow> int \<Rightarrow> string" where
  "mostCommon [] mostCommonPrefix maxCount = mostCommonPrefix"
| "mostCommon ((p, count) # rest) mostCommonPrefix maxCount =
    (if count > maxCount then mostCommon rest p count
     else mostCommon rest mostCommonPrefix maxCount)"

definition detectPrefixFromJSONL :: "doctorEnv \<Rightarrow> string \<Rightarrow> string" where
  "detectPrefixFromJSONL env jsonlPath =
    (let prefixCounts = fst (snd (CountJSONLIssues env jsonlPath))
     in if length prefixCounts = 0 then [] else mostCommon (rangeOrder env prefixCounts) [] 0)"

subsection \<open>isNoDbModeConfigured and getDatabaseVersionFromPath\<close>

definition isNoDbModeConfigured :: "doctorEnv \<Rightarrow> string \<Rightarrow> bool" where
  "isNoDbModeConfigured env beadsDir =
    (let configPath = pathJoin beadsDir ''config.yaml''
     in case readFile env configPath of
          None \<Rightarrow> False
        | Some data \<Rightarrow>
            (case unmarshalLocalConfig env data of
               None \<Rightarrow> False
             | Some cfg \<Rightarrow> NoDb cfg))"

definition getDatabaseVersionFromPath :: "doctorEnv \<Rightarrow> string \<Rightarrow> string" where
  "getDatabaseVersionFromPath env dbPath =
    (if sqliteOpenFails env dbPath then ''unknown''
     else
       (case sqliteVersionRow env dbPath of
          Some version \<Rightarrow> version
        | None \<Rightarrow>
            (case sqliteMetadataTable env dbPath of
               ErrNoRows \<Rightarrow> ''pre-0.17.5''
             | _ \<Rightarrow> ''unknown'')))"

subsection \<open>CheckDatabaseVersion\<close>

text \<open>The branch of \<open>CheckDatabaseVersion\<close> for the Dolt backend.\<close>

definition CheckDatabaseVersionDolt :: "doctorEnv \<Rightarrow> string \<Rightarrow> string \<Rightarrow> DoctorCheck" where
  "CheckDatabaseVersionDolt env beadsDir cliVersion =
    (let doltPath = pathJoin beadsDir ''dolt''
     in if stat env doltPath = StatNotExist then
          (let issuesJSONL = pathJoin beadsDir ''issues.jsonl'';
               beadsJSONL = pathJoin beadsDir ''beads.jsonl''
           in if stat env issuesJSONL = StatOk \<or> stat env beadsJSONL = StatOk then
                \<lparr>Name = ''Database'', Status = StatusWarning,
                 Message = ''Fresh clone detected (no dolt database)'',
                 Detail = ''Storage: Dolt'',
                 Fix = ''Run 'bd init' to create and hydrate the dolt database''\<rparr>
              else
                \<lparr>Name = ''Database'', Status = StatusError,
                 Message = ''No dolt database found'',
                 Detail = ''Storage: Dolt'',
                 Fix = ''Run 'bd init' to create database''\<rparr>)
        else
          (case openDolt env beadsDir of
             Inl err \<Rightarrow>
               \<lparr>Name = ''Database'', Status = StatusError,
                Message = ''Unable to open database'',
                Detail = ''Storage: Dolt\<newline>\<newline>Error: '' @ err,
                Fix = ''Run 'bd doctor --fix' to recover from JSONL backup, or manually: rm -rf .beads/dolt && bd init''\<rparr>
           | Inr store \<Rightarrow>
               (case bdVersion store of
                  Inl err \<Rightarrow>
                    \<lparr>Name = ''Database'', Status = StatusError,
                     Message = ''Unable to read database version'',
                     Detail = ''Storage: Dolt\<newline>\<newline>Error: '' @ err,
                     Fix = ''Database may be corrupted. Run 'bd doctor --fix' to recover from JSONL backup''\<rparr>
                | Inr dbVersion \<Rightarrow>
                    if dbVersion = [] then
                      \<lparr>Name = ''Database'', Status = StatusWarning,
                       Message = ''Database missing version metadata'',
                       Detail = ''Storage: Dolt'',
                       Fix = ''Run 'bd doctor --fix' to repair metadata''\<rparr>
                    else if dbVersion \<noteq> cliVersion then
                      \<lparr>Name = ''Database'', Status = StatusWarning,
                       Message = ''version '' @ dbVersion @ '' (CLI: '' @ cliVersion @ '')'',
                       Detail = ''Storage: Dolt'',
                       Fix = ''Update bd CLI and re-run (dolt metadata will be updated automatically)''\<rparr>
                    else
                      \<lparr>Name = ''Database'', Status = StatusOK,
                       Message = ''version '' @ dbVersion,
                       Detail = ''Storage: Dolt'',
                       Fix = []\<rparr>)))"

text \<open>
  The rest of \<open>CheckDatabaseVersion\<close>, for the other backend: the path of the database file,
  then the case of a file that does not exist.
\<close>

definition CheckDatabaseVersionMissing :: "doctorEnv \<Rightarrow> string \<Rightarrow> DoctorCheck" where
  "CheckDatabaseVersionMissing env beadsDir =
    (let issuesJSONL = pathJoin beadsDir ''issues.jsonl'';
         beadsJSONL = pathJoin beadsDir ''beads.jsonl'';
         jsonlPath = (if stat env issuesJSONL = StatOk then issuesJSONL
                      else if stat env beadsJSONL = StatOk then beadsJSONL
                      else [])
     in if jsonlPath \<noteq> [] then
          (if isNoDbModeConfigured env beadsDir then
             \<lparr>Name = ''Database'', Status = StatusOK,
              Message = ''JSONL-only mode'',
              Detail = ''Using issues.jsonl (no SQLite database)'',
              Fix = []\<rparr>
           else
             (let issueCount = countIssuesInJSONLFile env jsonlPath;
                  detected = detectPrefixFromJSONL env jsonlPath;
                  message = ''Fresh clone detected (no database)'';
                  detail = ''Found '' @ Itoa issueCount @ '' issue(s) in JSONL that need to be imported'';
                  fix = (if detected \<noteq> []
                         then ''Run 'bd init' to hydrate the database (detected prefix: '' @ detected @ '')''
                         else ''Run 'bd init' to hydrate the database from JSONL'')
              in \<lparr>Name = ''Database'', Status = StatusWarning,
                  Message = message, Detail = detail, Fix = fix\<rparr>))
        else
          \<lparr>Name = ''Database'', Status = StatusError,
           Message = ''No beads.db found'',
           Detail = [],
           Fix = ''Run 'bd init' to create database''\<rparr>)"

text \<open>
  The path of the database file of the other backend: the one that \<open>metadata.json\<close> names,
  or else the canonical name in the directory.
\<close>

definition databaseFilePath :: "doctorEnv \<Rightarrow> string \<Rightarrow> string" where
  "databaseFilePath env beadsDir =
    (case loadMetadata env beadsDir of
       Loaded cfg \<Rightarrow>
         if Database cfg \<noteq> [] then databasePath env cfg beadsDir
         else pathJoin beadsDir (canonicalDatabaseName env)
     | _ \<Rightarrow> pathJoin beadsDir (canonicalDatabaseName env))"

definition CheckDatabaseVersion :: "doctorEnv \<Rightarrow> string \<Rightarrow> string \<Rightarrow> DoctorCheck" where
  "CheckDatabaseVersion env path cliVersion =
    (let (backend, beadsDir) = backendAndBeadsDir env path
     in if backend = doltBackend env then CheckDatabaseVersionDolt env beadsDir cliVersion
        else
          (let dbPath = databaseFilePath env beadsDir
           in if stat env dbPath = StatNotExist then CheckDatabaseVersionMissing env beadsDir
              else
                (let dbVersion = getDatabaseVersionFromPath env dbPath
                 in if dbVersion = ''unknown'' then
                      \<lparr>Name = ''Database'', Status = StatusError,
                       Message = ''Unable to read database version'',
                       Detail = ''Storage: SQLite'',
                       Fix = ''Database may be corrupted. Try 'bd migrate'' @ [CHR 0x27]\<rparr>
                    else if dbVersion = ''pre-0.17.5'' then
                      \<lparr>Name = ''Database'', Status = StatusWarning,
                       Message = ''version '' @ dbVersion @ '' (very old)'',
                       Detail = ''Storage: SQLite'',
                       Fix = ''Run 'bd migrate' to upgrade database schema''\<rparr>
                    else if dbVersion \<noteq> cliVersion then
                      \<lparr>Name = ''Database'', Status = StatusWarning,
                       Message = ''version '' @ dbVersion @ '' (CLI: '' @ cliVersion @ '')'',
                       Detail = ''Storage: SQLite'',
                       Fix = ''Run 'bd migrate' to sync database with CLI version''\<rparr>
                    else
                      \<lparr>Name = ''Database'', Status = StatusOK,
                       Message = ''version '' @ dbVersion,
                       Detail = ''Storage: SQLite'',
                       Fix = []\<rparr>)))"

section \<open>Version tracking\<close>

text \<open>
  Modelled from the spec: \<open>getVersionsSince\<close>, \<open>trackBdVersion\<close>, the table \<open>versionChanges\<close>
  and the constant \<open>Version\<close> are in files of the command that are not among the sources;
  only their tests are. The definitions of this section follow section 4.4 of the spec.
\<close>

record VersionChange =
  Version :: string
  Date :: string
  Changes :: "string list"

text \<open>
  Modelled from the spec: \<open>getVersionsSince(from)\<close> "returns every entry from the baked-in
  changelog newer than \<open>from\<close>, oldest-first. If \<open>from\<close> is empty or not found in the
  changelog, return the whole table (chronological). If \<open>from\<close> equals the latest entry,
  return empty." The table is "baked into the binary (newest first)" and is a parameter here;
  the entries newer than \<open>from\<close> are the ones before the first entry with that version.
\<close>

definition getVersionsSince :: "VersionChange list \<Rightarrow> string \<Rightarrow> VersionChange list" where
  "getVersionsSince versionChanges sinceVersion =
    (if sinceVersion = [] \<or> sinceVersion \<notin> set (map Version versionChanges)
     then rev versionChanges
     else rev (takeWhile (\<lambda>vc. Version vc \<noteq> sinceVersion) versionChanges))"

text \<open>
  The state of the tracker: the \<open>.beads\<close> directory that is located (\<open>None\<close> when there is no
  repository), the content of the file \<open>.local_version\<close> of each directory (\<open>None\<close> when the
  file is missing), and the process-wide variables \<open>versionUpgradeDetected\<close> and
  \<open>previousVersion\<close>.
\<close>

record trackerState =
  locatedBeadsDir :: "string option"
  localVersionFile :: "string \<rightharpoonup> string"
  versionUpgradeDetected :: bool
  previousVersion :: string

text \<open>
  Modelled from the spec: the algorithm of \<open>trackBdVersion\<close>.
  \<^enum> "Locate \<open>.beads/\<close>. If none, return silently."
  \<^enum> "Read \<open>.local_version\<close> (missing \<open>\<Rightarrow>\<close> first-run)."
  \<^enum> "Compare to the binary's version. First run: write current version; mark no upgrade.
    File version strictly older: set \<open>upgradeDetected = true\<close>, remember \<open>previousVersion\<close>,
    overwrite file with current version. File version equal: no change. File version
    strictly newer: downgrade, leave \<open>upgradeDetected = false\<close>, do not remember a previous
    version, overwrite file with current version."
  The spec does not say how two versions are compared: \<open>compareVersions a b\<close> is a parameter,
  negative when \<open>a\<close> is strictly older than \<open>b\<close>, zero when they are equal and positive when
  \<open>a\<close> is strictly newer. \<open>current\<close> is the version of the binary.
\<close>

definition trackBdVersion ::
  "(string \<Rightarrow> string \<Rightarrow> int) \<Rightarrow> string \<Rightarrow> trackerState \<Rightarrow> trackerState" where
  "trackBdVersion compareVersions current st =
    (case locatedBeadsDir st of
       None \<Rightarrow> st
     | Some beadsDir \<Rightarrow>
        (case localVersionFile st beadsDir of
           None \<Rightarrow>
             st\<lparr>localVersionFile := (localVersionFile st)(beadsDir \<mapsto> current),
                versionUpgradeDetected := False\<rparr>
         | Some fileVersion \<Rightarrow>
             if compareVersions fileVersion current < 0 then
               st\<lparr>versionUpgradeDetected := True,
                  previousVersion := fileVersion,
                  localVersionFile := (localVersionFile st)(beadsDir \<mapsto> current)\<rparr>
             else if compareVersions fileVersion current = 0 then st
             else st\<lparr>localVersionFile := (localVersionFile st)(beadsDir \<mapsto> current)\<rparr>))"

section \<open>Concrete states\<close>

text \<open>
  A viper state whose global conflict strategy is \<open>ours\<close> and whose per-field table has
  an invalid entry for \<open>title\<close> and a valid one, written with spaces and a capital, for
  \<open>labels\<close>.
\<close>

definition viper_ours :: viper where
  "viper_ours = \<lparr>configFile = ''/repo/.beads/config.yaml'', override = [],
     inConfig = (\<lambda>k. k = ''conflict.strategy'' \<or> k = ''conflict.fields''),
     stringSetting = (\<lambda>k. if k = ''conflict.strategy'' then ''ours'' else []),
     stringMapSetting = (\<lambda>k. if k = ''conflict.fields'' then [(''title'', ''bogus''), (''labels'', '' Union '')] else [])\<rparr>"

text \<open>
  A repository whose config file has a nested string-keyed mapping, and one whose config
  file gives the directories \<open>2024\<close> and \<open>docs\<close> a label under \<open>directory.labels\<close>: the key
  \<open>2024\<close> is an integer, so \<open>yaml.Unmarshal\<close> decodes that mapping into a
  \<open>map[interface{}]interface{}\<close>.
\<close>

definition configState_repo :: configState where
  "configState_repo = \<lparr>viperVar = Some viper_ours,
     yamlFiles = [''/repo/.beads/config.yaml'' \<mapsto>
        [(''sync'', StrMap [(''mode'', Scalar ''git-portable''), (''branch'', Scalar ''main'')]),
         (''no-db'', Scalar ''false'')]],
     unwritable = (\<lambda>p. False)\<rparr>"

definition configState_mixed :: configState where
  "configState_mixed = \<lparr>viperVar = Some viper_ours,
     yamlFiles = [''/repo/.beads/config.yaml'' \<mapsto>
        [(''directory'', StrMap [(''labels'',
            GenMap [(Scalar ''2024'', Scalar ''archive''), (Scalar ''docs'', Scalar ''documentation'')])])]],
     unwritable = (\<lambda>p. False)\<rparr>"

text \<open>
  The packages outside the sources as a repository with the Dolt backend sees them, its
  \<open>metadata.json\<close>, a run of the command in that repository, and a network in which the
  address \<open>192.0.2.1:3307\<close> cannot be reached.
\<close>

definition externals_dolt :: externals where
  "externals_dolt = \<lparr>BackendDolt = ''dolt'',
     GetBackend = (\<lambda>c. if Backend c = '''' then ''dolt'' else Backend c),
     GetDoltServerHost = (\<lambda>c. if DoltServerHost c = '''' then ''127.0.0.1'' else DoltServerHost c),
     GetDoltServerPort = (\<lambda>c. if DoltServerPort c = 0 then 3307 else DoltServerPort c),
     DefaultConfig = \<lparr>Backend = '''', Database = ''beads.db'', DoltMode = '''', DoltDatabase = '''',
        DoltServerHost = '''', DoltServerPort = 0, DoltServerUser = ''''\<rparr>,
     RenderWarn = (\<lambda>s. s),
     SetYamlConfigError = (\<lambda>k x. None)\<rparr>"

definition config_dolt :: Config where
  "config_dolt = \<lparr>Backend = ''dolt'', Database = ''beads.db'', DoltMode = ''embedded'',
     DoltDatabase = ''beads'', DoltServerHost = ''192.0.2.1'', DoltServerPort = 3307,
     DoltServerUser = ''root''\<rparr>"

definition bdState_repo :: bdState where
  "bdState_repo = \<lparr>beadsDirFound = ''/repo/.beads'',
     metadataFiles = (\<lambda>d. if d = ''/repo/.beads'' then Loaded config_dolt else NoConfig),
     saveError = (\<lambda>d. None),
     textFiles = Map.empty,
     unopenable = (\<lambda>p. False),
     environment = Map.empty,
     now = ''2026-01-01T00:00:00Z'',
     jsonOutput = False,
     stdout = [],
     stderr = [],
     yamlConfigSet = []\<rparr>"


definition netState_unreachable :: netState where
  "netState_unreachable = \<lparr>dialFails = (\<lambda>network addr timeout. addr = ''192.0.2.1:3307''),
     dialed = [], closed = []\<rparr>"


text \<open>
  What the doctor sees in a repository at \<open>/repo\<close> that has no database: the backend, whether
  \<open>issues.jsonl\<close> exists, and whether \<open>config.yaml\<close> sets \<open>no-db\<close>.
\<close>

definition doctorEnv_clone :: "string \<Rightarrow> bool \<Rightarrow> bool \<Rightarrow> doctorEnv" where
  "doctorEnv_clone backend jsonl noDb =
    \<lparr>backendAndBeadsDir = (\<lambda>path. (backend, ''/repo/.beads'')),
     doltBackend = ''dolt'',
     canonicalDatabaseName = ''beads.db'',
     stat = (\<lambda>path. if path = ''/repo/.beads/issues.jsonl'' \<and> jsonl then StatOk
                      else if path = ''/repo/.beads/config.yaml'' then StatOk
                      else StatNotExist),
     readFile = (\<lambda>path. if path = ''/repo/.beads/issues.jsonl'' \<and> jsonl then Some ''{}''
                          else if path = ''/repo/.beads/config.yaml'' then Some ''no-db''
                          else None),
     loadMetadata = (\<lambda>dir. NoConfig),
     databasePath = (\<lambda>cfg dir. pathJoin dir (Database cfg)),
     openDolt = (\<lambda>dir. Inl ''no database''),
     unmarshalLocalConfig = (\<lambda>data. Some \<lparr>SyncBranch = [], NoDb = noDb\<rparr>),
     scanLines = (\<lambda>bytes. ([bytes], False)),
     unmarshalIssueId = (\<lambda>line. Some (Some ''bd-a1'')),
     rangeOrder = (\<lambda>entries. entries),
     sqliteOpenFails = (\<lambda>path. True),
     sqliteVersionRow = (\<lambda>path. None),
     sqliteMetadataTable = (\<lambda>path. RowFailed)\<rparr>"


text \<open>
  An order of dotted decimal versions, a changelog of three entries, newest first, and the
  state of the tracker at the start of a process, with the content of \<open>.local_version\<close>.
\<close>

fun compareNumbers :: "nat list \<Rightarrow> nat list \<Rightarrow> int" where
  "compareNumbers [] [] = 0"
| "compareNumbers [] (y # ys) = - 1"
| "compareNumbers (x # xs) [] = 1"
| "compareNumbers (x # xs) (y # ys) =
    (if x < y then - 1 else if y < x then 1 else compareNumbers xs ys)"

definition compareDotted :: "string \<Rightarrow> string \<Rightarrow> int" where
  "compareDotted a b =
    compareNumbers (map (\<lambda>s. decimalValue s 0) (splitDots a)) (map (\<lambda>s. decimalValue s 0) (splitDots b))"

definition changelog3 :: "VersionChange list" where
  "changelog3 =
    [\<lparr>Version = ''0.23.0'', Date = ''2025-11-08'', Changes = [''upgrade notes'']\<rparr>,
     \<lparr>Version = ''0.22.1'', Date = ''2025-11-06'', Changes = [''fixes'']\<rparr>,
     \<lparr>Version = ''0.22.0'', Date = ''2025-11-05'', Changes = [''first entry'']\<rparr>]"

definition tracker_start :: "string option \<Rightarrow> trackerState" where
  "tracker_start seeded =
    \<lparr>locatedBeadsDir = Some ''/repo/.beads'',
     localVersionFile = (\<lambda>dir. if dir = ''/repo/.beads'' then seeded else None),
     versionUpgradeDetected = False,
     previousVersion = []\<rparr>"


section \<open>Facts about the string functions\<close>

lemma Contains_iff: "Contains s sub \<longleftrightarrow> (\<exists>p q. s = p @ sub @ q)"
proof (induction s)
  case Nil
  then show ?case by auto
next
  case (Cons c cs)
  show ?case
  proof
    assume "Contains (c # cs) sub"
    then consider "prefix sub (c # cs)" | "Contains cs sub" by auto
    then show "\<exists>p q. c # cs = p @ sub @ q"
    proof cases
      case 1
      then obtain q where "c # cs = sub @ q" by (auto simp: prefix_def)
      then have "c # cs = [] @ sub @ q" by simp
      then show ?thesis by blast
    next
      case 2
      with Cons.IH obtain p q where "cs = p @ sub @ q" by blast
      then have "c # cs = (c # p) @ sub @ q" by simp
      then show ?thesis by blast
    qed
  next
    assume "\<exists>p q. c # cs = p @ sub @ q"
    then obtain p q where pq: "c # cs = p @ sub @ q" by blast
    show "Contains (c # cs) sub"
    proof (cases p)
      case Nil
      with pq have "prefix sub (c # cs)" by (simp add: prefix_def)
      then show ?thesis by simp
    next
      case (Cons a p')
      with pq have "cs = p' @ sub @ q" by simp
      with Cons.IH have "Contains cs sub" by blast
      then show ?thesis by simp
    qed
  qed
qed

lemma Contains_middle: "Contains (p @ sub @ q) sub"
  unfolding Contains_iff by blast

lemma Contains_infix: "s = p @ sub @ q \<Longrightarrow> Contains s sub"
  unfolding Contains_iff by blast

lemma Contains_file_is_not_a_database:
  assumes "Contains s ''file is not a database''"
  shows "Contains s ''not a database''"
proof -
  from assms obtain p q where "s = p @ ''file is not a database'' @ q"
    unfolding Contains_iff by blast
  then have "s = (p @ ''file is '') @ ''not a database'' @ q" by simp
  then show ?thesis by (rule Contains_infix)
qed

section \<open>The cases of classifyDatabaseError\<close>

lemma classify_locked:
  assumes "Contains errMsg ''database is locked''"
  shows "fst (classifyDatabaseError errMsg n avail) = ''Database is locked''"
    and "Contains (snd (classifyDatabaseError errMsg n avail)) ''removes stale lock files''"
    and "Contains (snd (classifyDatabaseError errMsg n avail)) ''rm .beads/dolt-access.lock''"
  using assms by (simp_all add: classifyDatabaseError_def)

lemma classify_not_a_database:
  assumes "\<not> Contains errMsg ''database is locked''" and "Contains errMsg ''not a database''"
  shows "fst (classifyDatabaseError errMsg n avail) = ''File is not a valid SQLite database''"
    and "avail \<Longrightarrow> Contains (snd (classifyDatabaseError errMsg n avail))
           (''Rebuild from JSONL ('' @ Itoa n @ '' issues)'')"
    and "\<not> avail \<Longrightarrow> Contains (snd (classifyDatabaseError errMsg n avail)) ''no JSONL backup found''"
proof -
  show "fst (classifyDatabaseError errMsg n avail) = ''File is not a valid SQLite database''"
    using assms by (simp add: classifyDatabaseError_def)
  show "Contains (snd (classifyDatabaseError errMsg n avail))
           (''Rebuild from JSONL ('' @ Itoa n @ '' issues)'')" if "avail"
    by (rule Contains_infix [where
          p = "''Database file is corrupted beyond repair.\<newline>\<newline>Recovery steps:\<newline>1. Backup corrupt database: mv .beads/beads.db .beads/beads.db.broken\<newline>2. ''"
          and q = "'': bd doctor --fix --force --source=jsonl\<newline>3. Verify: bd stats''"])
       (use assms that in \<open>simp add: classifyDatabaseError_def\<close>)
  show "Contains (snd (classifyDatabaseError errMsg n avail)) ''no JSONL backup found''" if "\<not> avail"
    using assms that by (simp add: classifyDatabaseError_def)
qed

lemma classify_migration:
  assumes "\<not> Contains errMsg ''database is locked''" and "\<not> Contains errMsg ''not a database''"
    and "Contains errMsg ''migration'' \<or> Contains errMsg ''validation failed''"
  shows "fst (classifyDatabaseError errMsg n avail) = ''Database migration or validation failed''"
    and "avail \<Longrightarrow> Contains (snd (classifyDatabaseError errMsg n avail))
           (''Rebuild from JSONL ('' @ Itoa n @ '' issues)'')"
    and "\<not> avail \<Longrightarrow> snd (classifyDatabaseError errMsg n avail) =
           ''Database validation failed and no JSONL backup available.\<newline>Try: bd doctor --fix --force''"
proof -
  from assms(2) have nf: "\<not> Contains errMsg ''file is not a database''"
    using Contains_file_is_not_a_database by blast
  show "fst (classifyDatabaseError errMsg n avail) = ''Database migration or validation failed''"
    using assms nf by (auto simp add: classifyDatabaseError_def)
  show "Contains (snd (classifyDatabaseError errMsg n avail))
           (''Rebuild from JSONL ('' @ Itoa n @ '' issues)'')" if "avail"
    by (rule Contains_infix [where
          p = "''Database has validation errors (possibly orphaned dependencies).\<newline>\<newline>Recovery steps:\<newline>1. Backup database: mv .beads/beads.db .beads/beads.db.broken\<newline>2. ''"
          and q = "'': bd doctor --fix --force --source=jsonl\<newline>3. Verify: bd stats\<newline>\<newline>Alternative: bd doctor --fix --force (attempts to repair in-place)''"])
       (use assms nf that in \<open>auto simp add: classifyDatabaseError_def\<close>)
  show "snd (classifyDatabaseError errMsg n avail) =
           ''Database validation failed and no JSONL backup available.\<newline>Try: bd doctor --fix --force''"
    if "\<not> avail"
    using assms nf that by (auto simp add: classifyDatabaseError_def)
qed

lemma classify_generic:
  assumes "\<not> Contains errMsg ''database is locked''" and "\<not> Contains errMsg ''not a database''"
    and "\<not> Contains errMsg ''migration''" and "\<not> Contains errMsg ''validation failed''"
  shows "fst (classifyDatabaseError errMsg n avail) = ''Failed to open database''"
    and "avail \<Longrightarrow> snd (classifyDatabaseError errMsg n avail) =
           ''Run 'bd doctor --fix --source=jsonl' to rebuild from JSONL ('' @ Itoa n @ '' issues)''"
    and "\<not> avail \<Longrightarrow> snd (classifyDatabaseError errMsg n avail) =
           ''Run 'bd doctor --fix --force' to attempt recovery''"
proof -
  from assms(2) have nf: "\<not> Contains errMsg ''file is not a database''"
    using Contains_file_is_not_a_database by blast
  show "fst (classifyDatabaseError errMsg n avail) = ''Failed to open database''"
    using assms nf by (simp add: classifyDatabaseError_def)
  show "snd (classifyDatabaseError errMsg n avail) =
           ''Run 'bd doctor --fix --source=jsonl' to rebuild from JSONL ('' @ Itoa n @ '' issues)''"
    if "avail"
    using assms nf that by (simp add: classifyDatabaseError_def)
  show "snd (classifyDatabaseError errMsg n avail) =
           ''Run 'bd doctor --fix --force' to attempt recovery''"
    if "\<not> avail"
    using assms nf that by (simp add: classifyDatabaseError_def)
qed

text \<open>
  Claim C3. \<open>classifyDatabaseError\<close> is a total function of the message, the count and
  the availability flag, and its patterns are tried in the order of the \<open>switch\<close>:
  a message containing \<open>database is locked\<close> is classified as locked, with the steps that
  remove the stale lock files; a message without it that contains \<open>not a database\<close> is
  classified as a file that is not a database, and its steps name the rebuild from JSONL
  with the given count when JSONL is available; a message that matches neither and contains
  \<open>migration\<close> or \<open>validation failed\<close> is classified as a failed migration or validation,
  with the rebuild from JSONL and its count when available and the repair in place
  otherwise; every other message gets the generic classification, with the rebuild from
  JSONL or the forced repair according to the availability.
\<close>

theorem classifyDatabaseError_ordered_cases:
  "(Contains errMsg ''database is locked'' \<longrightarrow>
      fst (classifyDatabaseError errMsg n avail) = ''Database is locked'' \<and>
      Contains (snd (classifyDatabaseError errMsg n avail)) ''removes stale lock files'' \<and>
      Contains (snd (classifyDatabaseError errMsg n avail)) ''rm .beads/dolt-access.lock'') \<and>
   (\<not> Contains errMsg ''database is locked'' \<and> Contains errMsg ''not a database'' \<longrightarrow>
      fst (classifyDatabaseError errMsg n avail) = ''File is not a valid SQLite database'' \<and>
      (avail \<longrightarrow> Contains (snd (classifyDatabaseError errMsg n avail))
                   (''Rebuild from JSONL ('' @ Itoa n @ '' issues)'')) \<and>
      (\<not> avail \<longrightarrow> Contains (snd (classifyDatabaseError errMsg n avail)) ''no JSONL backup found'')) \<and>
   (\<not> Contains errMsg ''database is locked'' \<and> \<not> Contains errMsg ''not a database'' \<and>
    (Contains errMsg ''migration'' \<or> Contains errMsg ''validation failed'') \<longrightarrow>
      fst (classifyDatabaseError errMsg n avail) = ''Database migration or validation failed'' \<and>
      (avail \<longrightarrow> Contains (snd (classifyDatabaseError errMsg n avail))
                   (''Rebuild from JSONL ('' @ Itoa n @ '' issues)'')) \<and>
      (\<not> avail \<longrightarrow> snd (classifyDatabaseError errMsg n avail) =
         ''Database validation failed and no JSONL backup available.\<newline>Try: bd doctor --fix --force'')) \<and>
   (\<not> Contains errMsg ''database is locked'' \<and> \<not> Contains errMsg ''not a database'' \<and>
    \<not> Contains errMsg ''migration'' \<and> \<not> Contains errMsg ''validation failed'' \<longrightarrow>
      fst (classifyDatabaseError errMsg n avail) = ''Failed to open database'' \<and>
      (avail \<longrightarrow> snd (classifyDatabaseError errMsg n avail) =
         ''Run 'bd doctor --fix --source=jsonl' to rebuild from JSONL ('' @ Itoa n @ '' issues)'') \<and>
      (\<not> avail \<longrightarrow> snd (classifyDatabaseError errMsg n avail) =
         ''Run 'bd doctor --fix --force' to attempt recovery''))"
  using classify_locked [where errMsg = errMsg and n = n and avail = avail]
    classify_not_a_database [where errMsg = errMsg and n = n and avail = avail]
    classify_migration [where errMsg = errMsg and n = n and avail = avail]
    classify_generic [where errMsg = errMsg and n = n and avail = avail]
  by blast

theorem classifyDatabaseError_ordered_cases_witness:
  "fst (classifyDatabaseError ''database is locked'' 0 False) = ''Database is locked'' \<and>
   fst (classifyDatabaseError ''file is not a database'' 12 True)
     = ''File is not a valid SQLite database'' \<and>
   Contains (snd (classifyDatabaseError ''file is not a database'' 12 True))
     ''Rebuild from JSONL (12 issues)'' \<and>
   fst (classifyDatabaseError ''validation failed: orphan'' 7 True)
     = ''Database migration or validation failed'' \<and>
   Contains (snd (classifyDatabaseError ''validation failed: orphan'' 7 True))
     ''Rebuild from JSONL (7 issues)'' \<and>
   classifyDatabaseError ''disk I/O error'' 0 False
     = (''Failed to open database'', ''Run 'bd doctor --fix --force' to attempt recovery'') \<and>
   fst (classifyDatabaseError ''migration failed: database is locked'' 12 True)
     = ''Database is locked''"
proof -
  have i12: "Itoa 12 = ''12''" and i7: "Itoa 7 = ''7''" by (simp_all add: Itoa_def natToDec.simps digitChar_def)
  have a: "Contains ''database is locked'' ''database is locked''" by simp
  have b: "\<not> Contains ''file is not a database'' ''database is locked'' \<and>
           Contains ''file is not a database'' ''not a database''" by simp
  have c: "\<not> Contains ''validation failed: orphan'' ''database is locked'' \<and>
           \<not> Contains ''validation failed: orphan'' ''not a database'' \<and>
           (Contains ''validation failed: orphan'' ''migration'' \<or>
            Contains ''validation failed: orphan'' ''validation failed'')" by simp
  have d: "\<not> Contains ''disk I/O error'' ''database is locked'' \<and>
           \<not> Contains ''disk I/O error'' ''not a database'' \<and>
           \<not> Contains ''disk I/O error'' ''migration'' \<and>
           \<not> Contains ''disk I/O error'' ''validation failed''" by simp
  have e: "Contains ''migration failed: database is locked'' ''database is locked''" by simp
  show ?thesis
    using a b c d e i12 i7
      classifyDatabaseError_ordered_cases [of "''database is locked''" 0 False]
      classifyDatabaseError_ordered_cases [of "''file is not a database''" 12 True]
      classifyDatabaseError_ordered_cases [of "''validation failed: orphan''" 7 True]
      classifyDatabaseError_ordered_cases [of "''disk I/O error''" 0 False]
      classifyDatabaseError_ordered_cases [of "''migration failed: database is locked''" 12 True]
    by (simp add: prod_eq_iff)
qed

section \<open>The source of a configuration value\<close>

text \<open>
  Claim C9. \<open>GetValueSource\<close> answers \<open>SourceEnvVar\<close> only when the variable with the
  prefix \<open>BD_\<close> or the one with the prefix \<open>BEADS_\<close> (the key with hyphens and dots
  replaced by underscores, in upper case) is set to a non-empty string. When each of the
  two variables is unset or set to the empty string, the answer is \<open>SourceConfigFile\<close> if
  a config is loaded and holds the key, and \<open>SourceDefault\<close> otherwise.
\<close>

theorem GetValueSource_env_only_when_nonempty:
  "(GetValueSource go v env key = SourceEnvVar \<longrightarrow>
      (\<exists>s. s \<noteq> [] \<and>
        (env (envKeyOf go ''BD_'' key) = Some s \<or> env (envKeyOf go ''BEADS_'' key) = Some s))) \<and>
   ((env (envKeyOf go ''BD_'' key) = None \<or> env (envKeyOf go ''BD_'' key) = Some []) \<and>
    (env (envKeyOf go ''BEADS_'' key) = None \<or> env (envKeyOf go ''BEADS_'' key) = Some []) \<longrightarrow>
      GetValueSource go v env key =
        (case v of None \<Rightarrow> SourceDefault
         | Some vp \<Rightarrow> if inConfig vp key then SourceConfigFile else SourceDefault))"
  by (auto simp add: GetValueSource_def Getenv_def envKeyOf_def Let_def split: option.splits)

lemma envKeyOf_conflict_strategy:
  "envKeyOf asciiStrings pre ''conflict.strategy'' = pre @ ''CONFLICT_STRATEGY''"
  by (simp add: envKeyOf_def asciiStrings_def ToUpper_def ReplaceAllByte_def toUpperByte_def)

lemma envKeyOf_no_db: "envKeyOf asciiStrings pre ''no-db'' = pre @ ''NO_DB''"
  by (simp add: envKeyOf_def asciiStrings_def ToUpper_def ReplaceAllByte_def toUpperByte_def)

theorem GetValueSource_env_only_when_nonempty_witness:
  "envKeyOf asciiStrings ''BD_'' ''conflict.strategy'' = ''BD_CONFLICT_STRATEGY'' \<and>
   GetValueSource asciiStrings (Some viper_ours) [''BD_CONFLICT_STRATEGY'' \<mapsto> ''theirs'']
     ''conflict.strategy'' = SourceEnvVar \<and>
   GetValueSource asciiStrings (Some viper_ours) [''BD_CONFLICT_STRATEGY'' \<mapsto> []]
     ''conflict.strategy'' = SourceConfigFile \<and>
   GetValueSource asciiStrings (Some viper_ours) [''BD_NO_DB'' \<mapsto> []] ''no-db'' = SourceDefault"
proof -
  have a: "GetValueSource asciiStrings (Some viper_ours) [''BD_CONFLICT_STRATEGY'' \<mapsto> ''theirs'']
             ''conflict.strategy'' = SourceEnvVar"
    using envKeyOf_conflict_strategy [of "''BD_''"]
    by (simp add: GetValueSource_def Getenv_def envKeyOf_def)
  show ?thesis
    using a
      GetValueSource_env_only_when_nonempty
        [of asciiStrings "Some viper_ours" "[''BD_CONFLICT_STRATEGY'' \<mapsto> ''theirs'']"
          "''conflict.strategy''"]
      GetValueSource_env_only_when_nonempty
        [of asciiStrings "Some viper_ours" "[''BD_CONFLICT_STRATEGY'' \<mapsto> []]" "''conflict.strategy''"]
      GetValueSource_env_only_when_nonempty
        [of asciiStrings "Some viper_ours" "[''BD_NO_DB'' \<mapsto> []]" "''no-db''"]
    by (simp add: envKeyOf_conflict_strategy envKeyOf_no_db viper_ours_def)
qed

section \<open>Per-field conflict strategies\<close>

lemma fieldStrategiesLoop_result:
  "distinct (map fst fm) \<Longrightarrow>
   fst (fieldStrategiesLoop go fm r l) f =
     (case map_of fm f of None \<Rightarrow> r f
      | Some s \<Rightarrow>
          if validFieldStrategies (strToLower go (strTrimSpace go s))
          then Some (strToLower go (strTrimSpace go s)) else r f)"
proof (induction fm arbitrary: r l)
  case Nil
  then show ?case by simp
next
  case (Cons e fm)
  obtain g t where e: "e = (g, t)" by (cases e)
  from Cons.prems e have d: "distinct (map fst fm)" and g: "g \<notin> fst ` set fm" by auto
  from g have none: "map_of fm g = None" by (simp add: map_of_eq_None_iff)
  show ?case
    using Cons.IH [OF d] none by (auto simp add: e Let_def split: option.splits)
qed

lemma fieldStrategiesLoop_logged:
  "set (snd (fieldStrategiesLoop go fm r l)) =
     set l \<union>
     {InvalidFieldStrategy f s | f s.
        (f, s) \<in> set fm \<and> \<not> validFieldStrategies (strToLower go (strTrimSpace go s))}"
proof (induction fm arbitrary: r l)
  case Nil
  then show ?case by simp
next
  case (Cons e fm)
  obtain g t where e: "e = (g, t)" by (cases e)
  show ?case unfolding e by (auto simp add: Cons.IH Let_def)
qed

lemma norm_bogus: "strToLower asciiStrings (strTrimSpace asciiStrings ''bogus'') = ''bogus''"
  by (simp add: asciiStrings_def ToLower_def TrimSpace_def toLowerByte_def isSpaceByte_def)

lemma norm_union: "strToLower asciiStrings (strTrimSpace asciiStrings '' Union '') = ''union''"
  by (simp add: asciiStrings_def ToLower_def TrimSpace_def toLowerByte_def isSpaceByte_def)

text \<open>
  Claim C4, as the code has it. A field whose configured strategy is not a valid field
  strategy is left out of the result of \<open>GetFieldStrategies\<close>, a warning is logged for
  it, and \<open>GetFieldStrategy\<close> answers \<open>newest\<close> for it, whatever the global strategy is.
  The entries of the Go map have distinct keys.
\<close>

theorem invalid_field_strategy_ignored:
  assumes "distinct (map fst (stringMapSetting vp ''conflict.fields''))"
    and "(field, strategyStr) \<in> set (stringMapSetting vp ''conflict.fields'')"
    and "\<not> validFieldStrategies (strToLower go (strTrimSpace go strategyStr))"
  shows "fst (GetFieldStrategies go (Some vp)) field = None \<and>
         InvalidFieldStrategy field strategyStr \<in> set (snd (GetFieldStrategies go (Some vp))) \<and>
         fst (GetFieldStrategy go (Some vp) field) = ''newest''"
proof -
  let ?fm = "stringMapSetting vp ''conflict.fields''"
  from assms(1,2) have m: "map_of ?fm field = Some strategyStr" by simp
  have r: "fst (GetFieldStrategies go (Some vp)) field = None"
    using fieldStrategiesLoop_result [OF assms(1), of go Map.empty "[]" field] m assms(3)
    by (simp add: GetFieldStrategies_def)
  have l: "InvalidFieldStrategy field strategyStr \<in> set (snd (GetFieldStrategies go (Some vp)))"
    using assms(2,3) by (auto simp add: GetFieldStrategies_def fieldStrategiesLoop_logged)
  have "fst (GetFieldStrategy go (Some vp) field) = ''newest''"
    using r by (cases "GetFieldStrategies go (Some vp)")
      (simp add: GetFieldStrategy_def FieldStrategyNewest_def)
  with r l show ?thesis by simp
qed

theorem invalid_field_strategy_ignored_witness:
  "fst (GetFieldStrategies asciiStrings (Some viper_ours)) ''title'' = None \<and>
   InvalidFieldStrategy ''title'' ''bogus''
     \<in> set (snd (GetFieldStrategies asciiStrings (Some viper_ours))) \<and>
   fst (GetFieldStrategy asciiStrings (Some viper_ours) ''title'') = ''newest''"
proof -
  have v: "\<not> validFieldStrategies (strToLower asciiStrings (strTrimSpace asciiStrings ''bogus''))"
    by (simp add: norm_bogus validFieldStrategies_def)
  show ?thesis
    using invalid_field_strategy_ignored [of viper_ours "''title''" "''bogus''" asciiStrings] v
    by (simp add: viper_ours_def)
qed

text \<open>
  The claim as it is worded: the global strategy applies to the field. With the global
  strategy \<open>ours\<close> and the invalid strategy \<open>bogus\<close> for \<open>title\<close>, \<open>GetFieldStrategy\<close>
  answers \<open>newest\<close>.
\<close>

theorem field_strategy_not_global_counterexample:
  "(''title'', ''bogus'') \<in> set (stringMapSetting viper_ours ''conflict.fields'') \<and>
   \<not> validFieldStrategies (strToLower asciiStrings (strTrimSpace asciiStrings ''bogus'')) \<and>
   GetConflictStrategy (Some viper_ours) = ''ours'' \<and>
   fst (GetFieldStrategy asciiStrings (Some viper_ours) ''title'') = ''newest''"
  by (simp add: norm_bogus norm_union validFieldStrategies_def GetConflictStrategy_def GetString_def
      GetFieldStrategy_def GetFieldStrategies_def FieldStrategyNewest_def viper_ours_def)

section \<open>Writing one key of the config file\<close>

lemma splitDots_cut_None: "cutDot key = None \<Longrightarrow> splitDots key = [key]"
  by (induction key) (auto split: if_splits option.splits list.splits)

lemma splitDots_not_Nil [simp]: "splitDots key \<noteq> []"
  by (induction key) (auto split: list.splits)

lemma splitDots_cut_Some: "cutDot key = Some (a, b) \<Longrightarrow> splitDots key = a # splitDots b"
  by (induction key arbitrary: a) (auto split: if_splits option.splits list.splits)

lemma lookupPath_Cons:
  "lookupPath m (k # ks) =
     (if ks = [] then map_of m k
      else (case map_of m k of Some (StrMap sub) \<Rightarrow> lookupPath sub ks | _ \<Rightarrow> None))"
  by (cases ks) auto

lemma lookupPath_Nil_map [simp]: "lookupPath [] q = None"
  by (cases q) (simp_all add: lookupPath_Cons)

lemma cutDot_shorter: "cutDot key = Some (a, b) \<Longrightarrow> length b < length key"
  by (induction key arbitrary: a b) (auto split: if_splits option.splits)

lemma setNestedKey_leaf:
  "cutDot key = None \<Longrightarrow> setNestedKey m key x = AList.update key x m"
  by (simp add: setNestedKey.simps [of m key x] SplitN2_def)

lemma setNestedKey_nested:
  "cutDot key = Some (a, b) \<Longrightarrow>
   setNestedKey m key x =
     AList.update a
       (StrMap (setNestedKey (case map_of m a of Some (StrMap s) \<Rightarrow> s | _ \<Rightarrow> []) b x)) m"
  by (simp add: setNestedKey.simps [of m key x] SplitN2_def Let_def)

lemma setNestedKey_frame:
  "\<not> prefix q (splitDots key) \<Longrightarrow> \<not> prefix (splitDots key) q \<Longrightarrow>
   lookupPath (setNestedKey m key x) q = lookupPath m q"
proof (induction key arbitrary: m q rule: measure_induct_rule [of length])
  case (less key)
  from less.prems obtain k ks where q: "q = k # ks" by (cases q) auto
  show ?case
  proof (cases "cutDot key")
    case None
    with less.prems q have "k \<noteq> key" by (auto simp add: splitDots_cut_None)
    then show ?thesis using None q
      by (simp add: lookupPath_Cons update_conv' setNestedKey_leaf)
  next
    case (Some ab)
    obtain a b where ab: "ab = (a, b)" by (cases ab)
    let ?sub = "(case map_of m a of Some (StrMap s) \<Rightarrow> s | _ \<Rightarrow> [])"
    from Some ab have cut: "cutDot key = Some (a, b)" by simp
    have sd: "splitDots key = a # splitDots b" using cut by (simp add: splitDots_cut_Some)
    have step: "setNestedKey m key x = AList.update a (StrMap (setNestedKey ?sub b x)) m"
      using cut by (rule setNestedKey_nested)
    show ?thesis
    proof (cases "k = a")
      case False
      then show ?thesis using q
        by (simp add: step lookupPath_Cons update_conv')
    next
      case True
      with less.prems q sd have np: "\<not> prefix ks (splitDots b)" "\<not> prefix (splitDots b) ks" by auto
      then have ne: "ks \<noteq> []" by auto
      have ih: "lookupPath (setNestedKey ?sub b x) ks = lookupPath ?sub ks"
        using less.IH [OF cutDot_shorter [OF cut] np] .
      show ?thesis using q True ne ih
        by (auto simp add: step lookupPath_Cons update_conv' split: option.splits val.splits)
    qed
  qed
qed

lemma setNestedKey_sets:
  "lookupPath (setNestedKey m key x) (splitDots key) = Some x"
proof (induction key arbitrary: m rule: measure_induct_rule [of length])
  case (less key)
  show ?case
  proof (cases "cutDot key")
    case None
    then show ?thesis by (simp add: splitDots_cut_None update_conv' setNestedKey_leaf)
  next
    case (Some ab)
    obtain a b where ab: "ab = (a, b)" by (cases ab)
    let ?sub = "(case map_of m a of Some (StrMap s) \<Rightarrow> s | _ \<Rightarrow> [])"
    from Some ab have cut: "cutDot key = Some (a, b)" by simp
    have sd: "splitDots key = a # splitDots b" using cut by (simp add: splitDots_cut_Some)
    have step: "setNestedKey m key x = AList.update a (StrMap (setNestedKey ?sub b x)) m"
      using cut by (rule setNestedKey_nested)
    have ih: "lookupPath (setNestedKey ?sub b x) (splitDots b) = Some x"
      using less.IH [OF cutDot_shorter [OF cut]] .
    show ?thesis using sd ih
      by (simp add: step lookupPath_Cons update_conv')
  qed
qed

text \<open>
  What holds of every call. A successful \<open>SaveConfigValue\<close> writes one file, the config
  file in use (or \<open>config.yaml\<close> in the given directory when none is). In the map it
  writes, every path of keys that is neither a prefix nor an extension of the given
  dot-separated path, followed through string-keyed mappings, has the value it had in the
  file, and the given path has the new value. What is written does not depend on the rest
  of the viper state: any viper state with the same config file path leaves the same files.
\<close>

lemma SaveConfigValue_string_keyed_frame:
  assumes "SaveConfigValue go st key x beadsDir = (None, st')"
  shows "\<exists>vp configPath m'.
     viperVar st = Some vp \<and>
     configPath = (if configFile vp = '''' then pathJoin beadsDir ''config.yaml'' else configFile vp) \<and>
     yamlFiles st' configPath = Some m' \<and>
     (\<forall>q. \<not> prefix q (splitDots key) \<and> \<not> prefix (splitDots key) q \<longrightarrow>
        lookupPath m' q =
        lookupPath (case yamlFiles st configPath of None \<Rightarrow> [] | Some data \<Rightarrow> data) q) \<and>
     lookupPath m' (splitDots key) = Some x \<and>
     (\<forall>p. p \<noteq> configPath \<longrightarrow> yamlFiles st' p = yamlFiles st p) \<and>
     (\<forall>go2 vp2. configFile vp2 = configFile vp \<longrightarrow>
        yamlFiles (snd (SaveConfigValue go2 (st\<lparr>viperVar := Some vp2\<rparr>) key x beadsDir)) = yamlFiles st')"
proof -
  from assms obtain vp where vp: "viperVar st = Some vp"
    by (cases "viperVar st") (auto simp add: SaveConfigValue_def)
  define configPath where
    "configPath = (if configFile vp = '''' then pathJoin beadsDir ''config.yaml'' else configFile vp)"
  define existing where
    "existing = (case yamlFiles st configPath of None \<Rightarrow> [] | Some data \<Rightarrow> data)"
  define out where "out = setNestedKey existing key x"
  have files': "yamlFiles st' = (yamlFiles st)(configPath \<mapsto> out)"
    and enc: "encodable (StrMap out)" and wr: "\<not> unwritable st configPath"
    using assms vp
    by (auto simp add: SaveConfigValue_def Let_def viperSet_def ConfigFileUsed_def SetConfigFile_def
        configPath_def existing_def out_def split: if_splits)
  have indep: "yamlFiles (snd (SaveConfigValue go2 (st\<lparr>viperVar := Some vp2\<rparr>) key x beadsDir)) = yamlFiles st'"
    if "configFile vp2 = configFile vp" for go2 vp2
    using that enc wr files'
    by (auto simp add: SaveConfigValue_def Let_def viperSet_def ConfigFileUsed_def SetConfigFile_def
        configPath_def existing_def out_def)
  have frame: "lookupPath out q = lookupPath existing q"
    if "\<not> prefix q (splitDots key) \<and> \<not> prefix (splitDots key) q" for q
    using that by (simp add: out_def setNestedKey_frame)
  have sets: "lookupPath out (splitDots key) = Some x"
    by (simp add: out_def setNestedKey_sets)
  show ?thesis
    using vp files' indep frame sets
    by (auto simp add: configPath_def existing_def)
qed

lemma SaveConfigValue_string_keyed_frame_example:
  "fst (SaveConfigValue asciiStrings configState_repo ''sync.mode'' (Scalar ''realtime'') ''/repo/.beads'') = None \<and>
   (\<exists>m'. yamlFiles (snd (SaveConfigValue asciiStrings configState_repo ''sync.mode'' (Scalar ''realtime'') ''/repo/.beads''))
            ''/repo/.beads/config.yaml'' = Some m' \<and>
      lookupPath m' [''sync'', ''mode''] = Some (Scalar ''realtime'') \<and>
      lookupPath m' [''sync'', ''branch''] = Some (Scalar ''main'') \<and>
      lookupPath m' [''no-db''] = Some (Scalar ''false''))"
proof -
  let ?r = "SaveConfigValue asciiStrings configState_repo ''sync.mode'' (Scalar ''realtime'') ''/repo/.beads''"
  have ok: "fst ?r = None"
    by (simp add: SaveConfigValue_def configState_repo_def viper_ours_def viperSet_def
        ConfigFileUsed_def Let_def setNestedKey.simps SplitN2_def)
  then have eq: "?r = (None, snd ?r)" by (simp add: prod_eq_iff)
  have sd: "splitDots ''sync.mode'' = [''sync'', ''mode'']" by simp
  from SaveConfigValue_string_keyed_frame [OF eq] obtain m' where
    m': "yamlFiles (snd ?r) ''/repo/.beads/config.yaml'' = Some m'"
    and fr: "\<And>q. \<not> prefix q [''sync'', ''mode''] \<and> \<not> prefix [''sync'', ''mode''] q \<Longrightarrow>
        lookupPath m' q =
        lookupPath [(''sync'', StrMap [(''mode'', Scalar ''git-portable''), (''branch'', Scalar ''main'')]),
                    (''no-db'', Scalar ''false'')] q"
    and st: "lookupPath m' [''sync'', ''mode''] = Some (Scalar ''realtime'')"
    unfolding sd by (auto simp add: configState_repo_def viper_ours_def)
  have "lookupPath m' [''sync'', ''branch''] = Some (Scalar ''main'')"
    using fr [of "[''sync'', ''branch'']"] by simp
  moreover have "lookupPath m' [''no-db''] = Some (Scalar ''false'')"
    using fr [of "[''no-db'']"] by simp
  ultimately show ?thesis using ok m' st by simp
qed


text \<open>
  Claim C6. \<open>SaveConfigValue\<close> is to change only the given dot-separated key path, every
  other key of the file keeping its value. A value on the path that is not a
  \<open>map[string]interface{}\<close> is replaced by a fresh map, and a mapping with a key that is not
  a string is decoded into a \<open>map[interface{}]interface{}\<close>: in a file whose mapping
  \<open>directory.labels\<close> has the keys \<open>2024\<close> and \<open>docs\<close>, saving \<open>directory.labels.src\<close>
  succeeds and leaves \<open>directory.labels\<close> with the key \<open>src\<close> alone; the labels of \<open>2024\<close>
  and \<open>docs\<close> are gone.
\<close>

theorem SaveConfigValue_drops_sibling_keys:
  "yamlFiles configState_mixed ''/repo/.beads/config.yaml'' =
     Some [(''directory'', StrMap [(''labels'',
        GenMap [(Scalar ''2024'', Scalar ''archive''), (Scalar ''docs'', Scalar ''documentation'')])])] \<and>
   fst (SaveConfigValue asciiStrings configState_mixed ''directory.labels.src'' (Scalar ''code'') ''/repo/.beads'') = None \<and>
   yamlFiles (snd (SaveConfigValue asciiStrings configState_mixed ''directory.labels.src'' (Scalar ''code'') ''/repo/.beads''))
       ''/repo/.beads/config.yaml'' =
     Some [(''directory'', StrMap [(''labels'', StrMap [(''src'', Scalar ''code'')])])]"
  by (simp add: SaveConfigValue_def configState_mixed_def viper_ours_def viperSet_def
      ConfigFileUsed_def Let_def setNestedKey.simps SplitN2_def)

section \<open>Rejected settings of the dolt command\<close>

lemma setDoltConfigSwitch_msgs:
  "setDoltConfigSwitch cfg key value = Inl msgs \<Longrightarrow> msgs \<noteq> []"
  unfolding setDoltConfigSwitch_def
  by (auto split: if_splits option.splits)

lemma setDoltConfig_switch_error:
  assumes "\<And>cfg. \<exists>msgs. setDoltConfigSwitch cfg key value = Inl msgs"
  shows "\<exists>errs. errs \<noteq> [] \<and> setDoltConfig ext st key value updateConfig = (Exit 1, eprint st errs)"
proof (cases "beadsDirFound st = []")
  case True
  then have "setDoltConfig ext st key value updateConfig =
      (Exit 1, eprint st [''Error: not in a beads repository (no .beads directory found)\<newline>''])"
    by (simp add: setDoltConfig_def)
  then show ?thesis by blast
next
  case nonempty: False
  show ?thesis
  proof (cases "metadataFiles st (beadsDirFound st)")
    case (LoadError err)
    with nonempty have "setDoltConfig ext st key value updateConfig =
        (Exit 1, eprint st [''Error loading config: '' @ err @ ''\<newline>''])"
      by (simp add: setDoltConfig_def)
    then show ?thesis by blast
  next
    case NoConfig
    from assms obtain msgs where m: "setDoltConfigSwitch (DefaultConfig ext) key value = Inl msgs"
      by blast
    then have "msgs \<noteq> []" by (rule setDoltConfigSwitch_msgs)
    moreover from nonempty NoConfig m have
      "setDoltConfig ext st key value updateConfig =
         (Exit 1, eprint st (if GetBackend ext (DefaultConfig ext) \<noteq> BackendDolt ext
                             then [''Error: not using Dolt backend\<newline>''] else msgs))"
      by (simp add: setDoltConfig_def)
    ultimately show ?thesis by (cases "GetBackend ext (DefaultConfig ext) \<noteq> BackendDolt ext") auto
  next
    case (Loaded c)
    from assms obtain msgs where m: "setDoltConfigSwitch c key value = Inl msgs"
      by blast
    then have "msgs \<noteq> []" by (rule setDoltConfigSwitch_msgs)
    moreover from nonempty Loaded m have
      "setDoltConfig ext st key value updateConfig =
         (Exit 1, eprint st (if GetBackend ext c \<noteq> BackendDolt ext
                             then [''Error: not using Dolt backend\<newline>''] else msgs))"
      by (simp add: setDoltConfig_def)
    ultimately show ?thesis by (cases "GetBackend ext c \<noteq> BackendDolt ext") auto
  qed
qed

lemma switch_rejects_port:
  assumes "key = ''port''"
    and "(case Atoi value of None \<Rightarrow> True | Some port \<Rightarrow> port < 1 \<or> 65535 < port)"
  shows "\<exists>msgs. setDoltConfigSwitch cfg key value = Inl msgs"
  using assms by (cases "Atoi value") (auto simp add: setDoltConfigSwitch_def)

lemma switch_rejects_empty:
  assumes "key = ''database'' \<or> key = ''host'' \<or> key = ''user''" and "value = []"
  shows "\<exists>msgs. setDoltConfigSwitch cfg key value = Inl msgs"
  using assms(1)
proof (elim disjE)
  assume "key = ''database''"
  with assms(2) show ?thesis by (simp add: setDoltConfigSwitch_def)
next
  assume "key = ''host''"
  with assms(2) show ?thesis by (simp add: setDoltConfigSwitch_def)
next
  assume "key = ''user''"
  with assms(2) show ?thesis by (simp add: setDoltConfigSwitch_def)
qed

lemma switch_rejects_mode:
  assumes "key = ''mode''" and "value \<noteq> ''embedded''" and "value \<noteq> ''server''"
  shows "\<exists>msgs. setDoltConfigSwitch cfg key value = Inl msgs"
  using assms by (simp add: setDoltConfigSwitch_def DoltModeEmbedded_def DoltModeServer_def)

lemma switch_rejects_unknown:
  assumes "key \<noteq> ''mode''" and "key \<noteq> ''database''" and "key \<noteq> ''host''"
    and "key \<noteq> ''port''" and "key \<noteq> ''user''"
  shows "\<exists>msgs. setDoltConfigSwitch cfg key value = Inl msgs"
  using assms by (simp add: setDoltConfigSwitch_def)

lemma setDoltConfigSwitch_invalid:
  assumes "(key = ''port'' \<and> (case Atoi value of None \<Rightarrow> True | Some port \<Rightarrow> port < 1 \<or> 65535 < port)) \<or>
           ((key = ''database'' \<or> key = ''host'' \<or> key = ''user'') \<and> value = []) \<or>
           (key = ''mode'' \<and> value \<noteq> ''embedded'' \<and> value \<noteq> ''server'') \<or>
           (key \<noteq> ''mode'' \<and> key \<noteq> ''database'' \<and> key \<noteq> ''host'' \<and> key \<noteq> ''port'' \<and> key \<noteq> ''user'')"
  shows "\<exists>msgs. setDoltConfigSwitch cfg key value = Inl msgs"
  using assms
proof (elim disjE)
  assume "key = ''port'' \<and> (case Atoi value of None \<Rightarrow> True | Some port \<Rightarrow> port < 1 \<or> 65535 < port)"
  then show ?thesis using switch_rejects_port by simp
next
  assume "(key = ''database'' \<or> key = ''host'' \<or> key = ''user'') \<and> value = []"
  then show ?thesis using switch_rejects_empty by simp
next
  assume "key = ''mode'' \<and> value \<noteq> ''embedded'' \<and> value \<noteq> ''server''"
  then show ?thesis using switch_rejects_mode by simp
next
  assume "key \<noteq> ''mode'' \<and> key \<noteq> ''database'' \<and> key \<noteq> ''host'' \<and> key \<noteq> ''port'' \<and> key \<noteq> ''user''"
  then show ?thesis using switch_rejects_unknown by simp
qed

text \<open>
  Claim C10. When the key is \<open>port\<close> and the value does not parse as an integer from 1
  to 65535, when the key is \<open>database\<close>, \<open>host\<close> or \<open>user\<close> and the value is empty, when
  the key is \<open>mode\<close> and the value is neither \<open>embedded\<close> nor \<open>server\<close>, and when the key
  is none of the five, \<open>setDoltConfig\<close> prints an error and exits with status 1, and the
  state is the one before the call but for standard error: no entry is added to the audit
  log, nothing is saved, \<open>metadata.json\<close> is as it was.
\<close>

theorem setDoltConfig_invalid_leaves_state:
  assumes "(key = ''port'' \<and> (case Atoi value of None \<Rightarrow> True | Some port \<Rightarrow> port < 1 \<or> 65535 < port)) \<or>
           ((key = ''database'' \<or> key = ''host'' \<or> key = ''user'') \<and> value = '''') \<or>
           (key = ''mode'' \<and> value \<noteq> ''embedded'' \<and> value \<noteq> ''server'') \<or>
           (key \<noteq> ''mode'' \<and> key \<noteq> ''database'' \<and> key \<noteq> ''host'' \<and> key \<noteq> ''port'' \<and> key \<noteq> ''user'')"
  shows "\<exists>errs. errs \<noteq> [] \<and>
           setDoltConfig ext st key value updateConfig = (Exit 1, st\<lparr>stderr := stderr st @ errs\<rparr>)"
proof -
  have "\<exists>msgs. setDoltConfigSwitch cfg key value = Inl msgs" for cfg
    using assms by (rule setDoltConfigSwitch_invalid)
  then have "\<exists>errs. errs \<noteq> [] \<and> setDoltConfig ext st key value updateConfig = (Exit 1, eprint st errs)"
    by (rule setDoltConfig_switch_error)
  then show ?thesis by (simp add: eprint_def)
qed

lemma atoi_65536: "Atoi ''65536'' = Some 65536"
  by (simp add: Atoi_def isDigit_def)

theorem setDoltConfig_invalid_leaves_state_witness:
  "fst (setDoltConfig externals_dolt bdState_repo ''port'' ''65536'' False) = Exit 1 \<and>
   metadataFiles (snd (setDoltConfig externals_dolt bdState_repo ''port'' ''65536'' False))
     = metadataFiles bdState_repo \<and>
   textFiles (snd (setDoltConfig externals_dolt bdState_repo ''port'' ''65536'' False))
     = textFiles bdState_repo \<and>
   fst (setDoltConfig externals_dolt bdState_repo ''host'' '''' True) = Exit 1 \<and>
   textFiles (snd (setDoltConfig externals_dolt bdState_repo ''host'' '''' True))
     = textFiles bdState_repo"
proof -
  have h1: "(case Atoi ''65536'' of None \<Rightarrow> True | Some port \<Rightarrow> port < 1 \<or> 65535 < port)"
    by (simp add: atoi_65536)
  from setDoltConfig_invalid_leaves_state [of "''port''" "''65536''" externals_dolt bdState_repo False] h1
  obtain e1 where
    "setDoltConfig externals_dolt bdState_repo ''port'' ''65536'' False
       = (Exit 1, bdState_repo\<lparr>stderr := stderr bdState_repo @ e1\<rparr>)"
    by auto
  moreover
  from setDoltConfig_invalid_leaves_state [of "''host''" "''''" externals_dolt bdState_repo True]
  obtain e2 where
    "setDoltConfig externals_dolt bdState_repo ''host'' '''' True
       = (Exit 1, bdState_repo\<lparr>stderr := stderr bdState_repo @ e2\<rparr>)"
    by auto
  ultimately show ?thesis by simp
qed


section \<open>The probe of the server connection\<close>

text \<open>
  Claim C7. \<open>testServerConnection\<close> dials once: the network \<open>tcp\<close>, the address made of
  the configured host and port, and a timeout of three seconds (in nanoseconds). It
  answers \<open>False\<close> when the dial fails and \<open>True\<close> exactly when it succeeds.
\<close>

theorem testServerConnection_dials_once:
  "fst (testServerConnection ext net cfg) =
     (\<not> dialFails net ''tcp''
          (JoinHostPort (GetDoltServerHost ext cfg) (Itoa (GetDoltServerPort ext cfg))) 3000000000) \<and>
   dialed (snd (testServerConnection ext net cfg)) =
     dialed net @
     [(''tcp'', JoinHostPort (GetDoltServerHost ext cfg) (Itoa (GetDoltServerPort ext cfg)), 3000000000)] \<and>
   dialFails (snd (testServerConnection ext net cfg)) = dialFails net"
  by (simp add: testServerConnection_def Let_def Second_def)

lemma itoa_3307: "Itoa 3307 = ''3307''"
  by (simp add: Itoa_def natToDec.simps digitChar_def)

lemma itoa_59999: "Itoa 59999 = ''59999''"
  by (simp add: Itoa_def natToDec.simps digitChar_def)

theorem testServerConnection_dials_once_witness:
  "fst (testServerConnection externals_dolt netState_unreachable config_dolt) = False \<and>
   dialed (snd (testServerConnection externals_dolt netState_unreachable config_dolt)) =
     [(''tcp'', ''192.0.2.1:3307'', 3000000000)] \<and>
   fst (testServerConnection externals_dolt netState_unreachable
          (config_dolt\<lparr>DoltServerHost := ''::1'', DoltServerPort := 59999\<rparr>)) = True \<and>
   dialed (snd (testServerConnection externals_dolt netState_unreachable
          (config_dolt\<lparr>DoltServerHost := ''::1'', DoltServerPort := 59999\<rparr>))) =
     [(''tcp'', ''[::1]:59999'', 3000000000)]"
  using testServerConnection_dials_once [of externals_dolt netState_unreachable config_dolt]
    testServerConnection_dials_once [of externals_dolt netState_unreachable
      "config_dolt\<lparr>DoltServerHost := ''::1'', DoltServerPort := 59999\<rparr>"]
  by (simp add: externals_dolt_def netState_unreachable_def config_dolt_def JoinHostPort_def
      itoa_3307 itoa_59999)

section \<open>The check of the database version without a database\<close>

lemma missing_fresh_clone:
  assumes "stat env (pathJoin beadsDir ''issues.jsonl'') = StatOk \<or>
           stat env (pathJoin beadsDir ''beads.jsonl'') = StatOk"
    and "\<not> isNoDbModeConfigured env beadsDir"
  shows "Status (CheckDatabaseVersionMissing env beadsDir) = StatusWarning"
    and "Message (CheckDatabaseVersionMissing env beadsDir) = ''Fresh clone detected (no database)''"
    and "Contains (Fix (CheckDatabaseVersionMissing env beadsDir)) ''hydrate''"
proof -
  have ne: "pathJoin beadsDir name \<noteq> []" for name by (simp add: pathJoin_def)
  show "Status (CheckDatabaseVersionMissing env beadsDir) = StatusWarning"
    using assms ne by (auto simp add: CheckDatabaseVersionMissing_def Let_def)
  show "Message (CheckDatabaseVersionMissing env beadsDir) = ''Fresh clone detected (no database)''"
    using assms ne by (auto simp add: CheckDatabaseVersionMissing_def Let_def)
  have hint: "Fix (CheckDatabaseVersionMissing env beadsDir) =
      ''Run 'bd init' to hydrate the database from JSONL'' \<or>
    (\<exists>d. Fix (CheckDatabaseVersionMissing env beadsDir) =
      ''Run 'bd init' to hydrate the database (detected prefix: '' @ d @ '')'')"
    using assms ne by (auto simp add: CheckDatabaseVersionMissing_def Let_def)
  then show "Contains (Fix (CheckDatabaseVersionMissing env beadsDir)) ''hydrate''"
  proof
    assume "Fix (CheckDatabaseVersionMissing env beadsDir) = ''Run 'bd init' to hydrate the database from JSONL''"
    then show ?thesis by simp
  next
    assume "\<exists>d. Fix (CheckDatabaseVersionMissing env beadsDir) =
      ''Run 'bd init' to hydrate the database (detected prefix: '' @ d @ '')''"
    then obtain d where "Fix (CheckDatabaseVersionMissing env beadsDir) =
      ''Run 'bd init' to hydrate the database (detected prefix: '' @ d @ '')''" by blast
    then have "Fix (CheckDatabaseVersionMissing env beadsDir) =
      ''Run 'bd init' to '' @ ''hydrate'' @ ('' the database (detected prefix: '' @ d @ '')'')" by simp
    then show ?thesis by (rule Contains_infix)
  qed
qed

lemma missing_jsonl_only:
  assumes "stat env (pathJoin beadsDir ''issues.jsonl'') = StatOk \<or>
           stat env (pathJoin beadsDir ''beads.jsonl'') = StatOk"
    and "isNoDbModeConfigured env beadsDir"
  shows "Status (CheckDatabaseVersionMissing env beadsDir) = StatusOK"
    and "Message (CheckDatabaseVersionMissing env beadsDir) = ''JSONL-only mode''"
proof -
  have ne: "pathJoin beadsDir name \<noteq> []" for name by (simp add: pathJoin_def)
  show "Status (CheckDatabaseVersionMissing env beadsDir) = StatusOK"
    using assms ne by (auto simp add: CheckDatabaseVersionMissing_def Let_def)
  show "Message (CheckDatabaseVersionMissing env beadsDir) = ''JSONL-only mode''"
    using assms ne by (auto simp add: CheckDatabaseVersionMissing_def Let_def)
qed

lemma missing_no_database:
  assumes "stat env (pathJoin beadsDir ''issues.jsonl'') \<noteq> StatOk"
    and "stat env (pathJoin beadsDir ''beads.jsonl'') \<noteq> StatOk"
  shows "Status (CheckDatabaseVersionMissing env beadsDir) = StatusError"
    and "Message (CheckDatabaseVersionMissing env beadsDir) = ''No beads.db found''"
  using assms by (simp_all add: CheckDatabaseVersionMissing_def Let_def)

lemma dolt_fresh_clone:
  assumes "stat env (pathJoin beadsDir ''dolt'') = StatNotExist"
    and "stat env (pathJoin beadsDir ''issues.jsonl'') = StatOk \<or>
         stat env (pathJoin beadsDir ''beads.jsonl'') = StatOk"
  shows "Status (CheckDatabaseVersionDolt env beadsDir cliVersion) = StatusWarning"
    and "Message (CheckDatabaseVersionDolt env beadsDir cliVersion) = ''Fresh clone detected (no dolt database)''"
    and "Contains (Fix (CheckDatabaseVersionDolt env beadsDir cliVersion)) ''hydrate''"
  using assms by (auto simp add: CheckDatabaseVersionDolt_def Let_def)

lemma dolt_no_database:
  assumes "stat env (pathJoin beadsDir ''dolt'') = StatNotExist"
    and "stat env (pathJoin beadsDir ''issues.jsonl'') \<noteq> StatOk"
    and "stat env (pathJoin beadsDir ''beads.jsonl'') \<noteq> StatOk"
  shows "Status (CheckDatabaseVersionDolt env beadsDir cliVersion) = StatusError"
    and "Message (CheckDatabaseVersionDolt env beadsDir cliVersion) = ''No dolt database found''"
  using assms by (simp_all add: CheckDatabaseVersionDolt_def Let_def)

text \<open>
  Claim C5, as the code has it. With a backend other than Dolt and no database file:
  a JSONL file and no \<open>no-db\<close> mode give a warning for a fresh clone with the hint to
  hydrate; a JSONL file and \<open>no-db\<close> mode give ok, JSONL-only mode; no JSONL file gives the
  error that no database was found. With the Dolt backend and no \<open>dolt\<close> directory, \<open>no-db\<close>
  mode is not looked at: a JSONL file gives the warning for a fresh clone, no JSONL file the
  error.
\<close>

theorem CheckDatabaseVersion_database_absent:
  assumes "backendAndBeadsDir env path = (backend, beadsDir)"
  shows
    "(backend \<noteq> doltBackend env \<and> stat env (databaseFilePath env beadsDir) = StatNotExist \<longrightarrow>
        ((stat env (pathJoin beadsDir ''issues.jsonl'') = StatOk \<or>
          stat env (pathJoin beadsDir ''beads.jsonl'') = StatOk) \<and>
         \<not> isNoDbModeConfigured env beadsDir \<longrightarrow>
           Status (CheckDatabaseVersion env path cliVersion) = StatusWarning \<and>
           Message (CheckDatabaseVersion env path cliVersion) = ''Fresh clone detected (no database)'' \<and>
           Contains (Fix (CheckDatabaseVersion env path cliVersion)) ''hydrate'') \<and>
        ((stat env (pathJoin beadsDir ''issues.jsonl'') = StatOk \<or>
          stat env (pathJoin beadsDir ''beads.jsonl'') = StatOk) \<and>
         isNoDbModeConfigured env beadsDir \<longrightarrow>
           Status (CheckDatabaseVersion env path cliVersion) = StatusOK \<and>
           Message (CheckDatabaseVersion env path cliVersion) = ''JSONL-only mode'') \<and>
        (stat env (pathJoin beadsDir ''issues.jsonl'') \<noteq> StatOk \<and>
         stat env (pathJoin beadsDir ''beads.jsonl'') \<noteq> StatOk \<longrightarrow>
           Status (CheckDatabaseVersion env path cliVersion) = StatusError \<and>
           Message (CheckDatabaseVersion env path cliVersion) = ''No beads.db found'')) \<and>
     (backend = doltBackend env \<and> stat env (pathJoin beadsDir ''dolt'') = StatNotExist \<longrightarrow>
        (stat env (pathJoin beadsDir ''issues.jsonl'') = StatOk \<or>
         stat env (pathJoin beadsDir ''beads.jsonl'') = StatOk \<longrightarrow>
           Status (CheckDatabaseVersion env path cliVersion) = StatusWarning \<and>
           Message (CheckDatabaseVersion env path cliVersion) = ''Fresh clone detected (no dolt database)'' \<and>
           Contains (Fix (CheckDatabaseVersion env path cliVersion)) ''hydrate'') \<and>
        (stat env (pathJoin beadsDir ''issues.jsonl'') \<noteq> StatOk \<and>
         stat env (pathJoin beadsDir ''beads.jsonl'') \<noteq> StatOk \<longrightarrow>
           Status (CheckDatabaseVersion env path cliVersion) = StatusError \<and>
           Message (CheckDatabaseVersion env path cliVersion) = ''No dolt database found''))"
proof -
  have sqlite: "CheckDatabaseVersion env path cliVersion = CheckDatabaseVersionMissing env beadsDir"
    if "backend \<noteq> doltBackend env" and "stat env (databaseFilePath env beadsDir) = StatNotExist"
    using that assms by (simp add: CheckDatabaseVersion_def)
  have dolt: "CheckDatabaseVersion env path cliVersion = CheckDatabaseVersionDolt env beadsDir cliVersion"
    if "backend = doltBackend env"
    using that assms by (simp add: CheckDatabaseVersion_def)
  show ?thesis
    using sqlite dolt
      missing_fresh_clone [of env beadsDir] missing_jsonl_only [of env beadsDir]
      missing_no_database [of env beadsDir]
      dolt_fresh_clone [of env beadsDir cliVersion] dolt_no_database [of env beadsDir cliVersion]
    by (intro conjI impI; elim conjE; simp)
qed

lemma clone_nodb:
  "isNoDbModeConfigured (doctorEnv_clone backend jsonl noDb) ''/repo/.beads'' = noDb"
  by (simp add: isNoDbModeConfigured_def doctorEnv_clone_def pathJoin_def)

lemma clone_stat:
  "stat (doctorEnv_clone backend jsonl noDb) (pathJoin ''/repo/.beads'' ''issues.jsonl'')
     = (if jsonl then StatOk else StatNotExist)"
  "stat (doctorEnv_clone backend jsonl noDb) (pathJoin ''/repo/.beads'' ''beads.jsonl'') = StatNotExist"
  "stat (doctorEnv_clone backend jsonl noDb) (pathJoin ''/repo/.beads'' ''dolt'') = StatNotExist"
  "stat (doctorEnv_clone backend jsonl noDb)
     (databaseFilePath (doctorEnv_clone backend jsonl noDb) ''/repo/.beads'') = StatNotExist"
  "backendAndBeadsDir (doctorEnv_clone backend jsonl noDb) path = (backend, ''/repo/.beads'')"
  "doltBackend (doctorEnv_clone backend jsonl noDb) = ''dolt''"
  by (simp_all add: doctorEnv_clone_def pathJoin_def databaseFilePath_def)

theorem CheckDatabaseVersion_database_absent_witness:
  "Status (CheckDatabaseVersion (doctorEnv_clone ''sqlite'' True False) ''/repo'' ''0.23.0'') = StatusWarning \<and>
   Contains (Fix (CheckDatabaseVersion (doctorEnv_clone ''sqlite'' True False) ''/repo'' ''0.23.0'')) ''hydrate'' \<and>
   Status (CheckDatabaseVersion (doctorEnv_clone ''sqlite'' True True) ''/repo'' ''0.23.0'') = StatusOK \<and>
   Message (CheckDatabaseVersion (doctorEnv_clone ''sqlite'' True True) ''/repo'' ''0.23.0'') = ''JSONL-only mode'' \<and>
   Status (CheckDatabaseVersion (doctorEnv_clone ''sqlite'' False False) ''/repo'' ''0.23.0'') = StatusError \<and>
   Status (CheckDatabaseVersion (doctorEnv_clone ''dolt'' True False) ''/repo'' ''0.23.0'') = StatusWarning \<and>
   Status (CheckDatabaseVersion (doctorEnv_clone ''dolt'' False False) ''/repo'' ''0.23.0'') = StatusError"
  using
    CheckDatabaseVersion_database_absent
      [of "doctorEnv_clone ''sqlite'' True False" "''/repo''" "''sqlite''" "''/repo/.beads''" "''0.23.0''"]
    CheckDatabaseVersion_database_absent
      [of "doctorEnv_clone ''sqlite'' True True" "''/repo''" "''sqlite''" "''/repo/.beads''" "''0.23.0''"]
    CheckDatabaseVersion_database_absent
      [of "doctorEnv_clone ''sqlite'' False False" "''/repo''" "''sqlite''" "''/repo/.beads''" "''0.23.0''"]
    CheckDatabaseVersion_database_absent
      [of "doctorEnv_clone ''dolt'' True False" "''/repo''" "''dolt''" "''/repo/.beads''" "''0.23.0''"]
    CheckDatabaseVersion_database_absent
      [of "doctorEnv_clone ''dolt'' False False" "''/repo''" "''dolt''" "''/repo/.beads''" "''0.23.0''"]
  by (simp add: clone_nodb clone_stat)

text \<open>
  The claim as it is worded: with \<open>no-db\<close> mode configured the check returns ok. With the
  Dolt backend, a JSONL file and \<open>no-db\<close> mode configured it returns the warning for a fresh
  clone.
\<close>

theorem CheckDatabaseVersion_dolt_nodb_counterexample:
  "backendAndBeadsDir (doctorEnv_clone ''dolt'' True True) ''/repo'' = (''dolt'', ''/repo/.beads'') \<and>
   stat (doctorEnv_clone ''dolt'' True True) ''/repo/.beads/dolt'' = StatNotExist \<and>
   stat (doctorEnv_clone ''dolt'' True True) ''/repo/.beads/issues.jsonl'' = StatOk \<and>
   isNoDbModeConfigured (doctorEnv_clone ''dolt'' True True) ''/repo/.beads'' \<and>
   Status (CheckDatabaseVersion (doctorEnv_clone ''dolt'' True True) ''/repo'' ''0.23.0'') = StatusWarning \<and>
   Message (CheckDatabaseVersion (doctorEnv_clone ''dolt'' True True) ''/repo'' ''0.23.0'')
     = ''Fresh clone detected (no dolt database)''"
  by (simp add: isNoDbModeConfigured_def CheckDatabaseVersion_def CheckDatabaseVersionDolt_def
      doctorEnv_clone_def pathJoin_def)

section \<open>The changelog since a version and the tracker\<close>

lemma takeWhile_split:
  "x \<in> set (map f xs) \<Longrightarrow>
   \<exists>e rest. xs = takeWhile (\<lambda>y. f y \<noteq> x) xs @ e # rest \<and> f e = x"
proof (induction xs)
  case Nil
  then show ?case by simp
next
  case (Cons a xs)
  show ?case
  proof (cases "f a = x")
    case True
    then show ?thesis by simp
  next
    case False
    with Cons.prems have "x \<in> set (map f xs)" by auto
    with Cons.IH obtain e rest where "xs = takeWhile (\<lambda>y. f y \<noteq> x) xs @ e # rest" "f e = x"
      by blast
    with False show ?thesis by auto
  qed
qed

text \<open>
  Claim C1, for a changelog table without an empty version string. The result never holds
  an entry of the version asked for. When that version is in the table, the table is the
  result reversed, then an entry of that version, then the older entries: the result is
  the entries that are strictly newer, oldest first. When the version is empty or not in the
  table, the result is the whole table reversed, of the same length. When the version is
  the one of the first (latest) entry, the result is empty.
\<close>

theorem getVersionsSince_newer_oldest_first:
  assumes "[] \<notin> set (map Version versionChanges)"
  shows "sinceVersion \<notin> set (map Version (getVersionsSince versionChanges sinceVersion)) \<and>
     (sinceVersion \<in> set (map Version versionChanges) \<longrightarrow>
        (\<exists>entry older. versionChanges =
            rev (getVersionsSince versionChanges sinceVersion) @ entry # older \<and>
            Version entry = sinceVersion)) \<and>
     (sinceVersion = [] \<or> sinceVersion \<notin> set (map Version versionChanges) \<longrightarrow>
        getVersionsSince versionChanges sinceVersion = rev versionChanges \<and>
        length (getVersionsSince versionChanges sinceVersion) = length versionChanges) \<and>
     (versionChanges \<noteq> [] \<and> sinceVersion = Version (hd versionChanges) \<longrightarrow>
        getVersionsSince versionChanges sinceVersion = [])"
proof (intro conjI impI)
  show "sinceVersion \<notin> set (map Version (getVersionsSince versionChanges sinceVersion))"
  proof (cases "sinceVersion = [] \<or> sinceVersion \<notin> set (map Version versionChanges)")
    case True
    have "sinceVersion \<notin> set (map Version versionChanges)"
    proof (cases "sinceVersion = []")
      case True
      with assms show ?thesis by simp
    next
      case False
      with \<open>sinceVersion = [] \<or> sinceVersion \<notin> set (map Version versionChanges)\<close>
      show ?thesis by simp
    qed
    with True show ?thesis by (simp add: getVersionsSince_def)
  next
    case False
    have "sinceVersion \<notin> Version ` set (takeWhile (\<lambda>vc. Version vc \<noteq> sinceVersion) versionChanges)"
      by (auto dest: set_takeWhileD)
    with False show ?thesis by (simp add: getVersionsSince_def)
  qed
next
  assume mem: "sinceVersion \<in> set (map Version versionChanges)"
  have ne: "sinceVersion \<noteq> []"
  proof
    assume "sinceVersion = []"
    with mem have "[] \<in> set (map Version versionChanges)" by simp
    with assms show False by simp
  qed
  from takeWhile_split [OF mem] obtain e rest where
    "versionChanges = takeWhile (\<lambda>vc. Version vc \<noteq> sinceVersion) versionChanges @ e # rest"
    "Version e = sinceVersion" by blast
  with mem ne show "\<exists>entry older. versionChanges =
      rev (getVersionsSince versionChanges sinceVersion) @ entry # older \<and>
      Version entry = sinceVersion"
    by (auto simp add: getVersionsSince_def)
next
  assume "sinceVersion = [] \<or> sinceVersion \<notin> set (map Version versionChanges)"
  then show "getVersionsSince versionChanges sinceVersion = rev versionChanges"
    by (auto simp add: getVersionsSince_def)
next
  assume "sinceVersion = [] \<or> sinceVersion \<notin> set (map Version versionChanges)"
  then show "length (getVersionsSince versionChanges sinceVersion) = length versionChanges"
    by (auto simp add: getVersionsSince_def)
next
  assume latest: "versionChanges \<noteq> [] \<and> sinceVersion = Version (hd versionChanges)"
  then obtain a rest where vc: "versionChanges = a # rest" by (cases versionChanges) auto
  with latest have m: "sinceVersion \<in> set (map Version versionChanges)" by simp
  have "sinceVersion \<noteq> []"
  proof
    assume "sinceVersion = []"
    with m have "[] \<in> set (map Version versionChanges)" by simp
    with assms show False by simp
  qed
  with m vc latest show "getVersionsSince versionChanges sinceVersion = []"
    by (simp add: getVersionsSince_def)
qed

theorem getVersionsSince_newer_oldest_first_witness:
  "map Version (getVersionsSince changelog3 ''0.22.0'') = [''0.22.1'', ''0.23.0''] \<and>
   map Version (getVersionsSince changelog3 []) = [''0.22.0'', ''0.22.1'', ''0.23.0''] \<and>
   length (getVersionsSince changelog3 ''0.1.0'') = length changelog3 \<and>
   getVersionsSince changelog3 ''0.23.0'' = [] \<and>
   ''0.22.1'' \<notin> set (map Version (getVersionsSince changelog3 ''0.22.1''))"
proof -
  have wf: "[] \<notin> set (map Version changelog3)" by (simp add: changelog3_def)
  have a: "map Version (getVersionsSince changelog3 ''0.22.0'') = [''0.22.1'', ''0.23.0'']"
    by (simp add: getVersionsSince_def changelog3_def)
  have b: "map Version (getVersionsSince changelog3 []) = [''0.22.0'', ''0.22.1'', ''0.23.0'']"
    by (simp add: getVersionsSince_def changelog3_def)
  have c: "''0.1.0'' \<notin> set (map Version changelog3)" by (simp add: changelog3_def)
  have d: "changelog3 \<noteq> [] \<and> ''0.23.0'' = Version (hd changelog3)" by (simp add: changelog3_def)
  show ?thesis
    using a b c d
      getVersionsSince_newer_oldest_first [OF wf, of "''0.1.0''"]
      getVersionsSince_newer_oldest_first [OF wf, of "''0.23.0''"]
      getVersionsSince_newer_oldest_first [OF wf, of "''0.22.1''"]
    by simp
qed

text \<open>
  Claim C2. In a process that has detected no upgrade and remembers no previous version,
  when \<open>.local_version\<close> holds a version strictly newer than the one of the binary,
  \<open>trackBdVersion\<close> leaves \<open>versionUpgradeDetected\<close> false and \<open>previousVersion\<close> empty, and the
  file holds the version of the binary afterwards.
\<close>

theorem trackBdVersion_downgrade_ignored:
  assumes "locatedBeadsDir st = Some beadsDir"
    and "localVersionFile st beadsDir = Some fileVersion"
    and "compareVersions fileVersion current > 0"
    and "\<not> versionUpgradeDetected st" and "previousVersion st = []"
  shows "\<not> versionUpgradeDetected (trackBdVersion compareVersions current st) \<and>
         previousVersion (trackBdVersion compareVersions current st) = [] \<and>
         localVersionFile (trackBdVersion compareVersions current st) beadsDir = Some current"
  using assms by (simp add: trackBdVersion_def)

lemma cmp_99: "compareDotted ''99.99.99'' ''0.23.0'' = 1"
  by (simp add: compareDotted_def)

theorem trackBdVersion_downgrade_ignored_witness:
  "\<not> versionUpgradeDetected (trackBdVersion compareDotted ''0.23.0'' (tracker_start (Some ''99.99.99''))) \<and>
   previousVersion (trackBdVersion compareDotted ''0.23.0'' (tracker_start (Some ''99.99.99''))) = [] \<and>
   localVersionFile (trackBdVersion compareDotted ''0.23.0'' (tracker_start (Some ''99.99.99'')))
     ''/repo/.beads'' = Some ''0.23.0''"
  using trackBdVersion_downgrade_ignored
    [of "tracker_start (Some ''99.99.99'')" "''/repo/.beads''" "''99.99.99''" compareDotted "''0.23.0''"]
  by (simp add: cmp_99 tracker_start_def)

text \<open>
  Claim C8. When the located directory has no \<open>.local_version\<close>, \<open>trackBdVersion\<close> creates
  it with the version of the binary and reports no upgrade.
\<close>

theorem trackBdVersion_first_run:
  assumes "locatedBeadsDir st = Some beadsDir"
    and "localVersionFile st beadsDir = None"
  shows "localVersionFile (trackBdVersion compareVersions current st) beadsDir = Some current \<and>
         \<not> versionUpgradeDetected (trackBdVersion compareVersions current st) \<and>
         previousVersion (trackBdVersion compareVersions current st) = previousVersion st"
  using assms by (simp add: trackBdVersion_def)

theorem trackBdVersion_first_run_witness:
  "localVersionFile (trackBdVersion compareDotted ''0.23.0'' (tracker_start None)) ''/repo/.beads''
     = Some ''0.23.0'' \<and>
   \<not> versionUpgradeDetected (trackBdVersion compareDotted ''0.23.0'' (tracker_start None))"
  using trackBdVersion_first_run [of "tracker_start None" "''/repo/.beads''" compareDotted "''0.23.0''"]
  by (simp add: tracker_start_def)

end
